theory Spec2Isabelle
  imports Complex_Main
begin

section \<open>Python values used by the trading bot\<close>

text \<open>
  Python \<open>str\<close> values are modelled in two ways. Where only ASCII text matters (order
  types, sides, decimal numerals, URLs, request parameters) a \<open>str\<close> is a \<open>string\<close> of
  7-bit characters, and \<open>str.strip\<close>, \<open>str.upper\<close>, \<open>str.isalpha\<close> and the \<open>Decimal\<close>
  constructor are given their behaviour on ASCII. Where the behaviour on arbitrary text
  is in question, a \<open>str\<close> is the list of its code points and the tables of the Unicode
  character database, which are data of the interpreter and not of the repository, are
  a parameter.
\<close>

definition chr_isascii :: "char \<Rightarrow> bool" where
  "chr_isascii c = ((of_char c :: nat) < 128)"

definition str_isascii :: "string \<Rightarrow> bool" where
  "str_isascii s = list_all chr_isascii s"

definition chr_isspace :: "char \<Rightarrow> bool" where
  \<comment> \<open>\<open>c.isspace()\<close> on ASCII: TAB, LF, VT, FF, CR, FS, GS, RS, US and the blank.\<close>
  "chr_isspace c = (let n = of_char c :: nat in (9 \<le> n \<and> n \<le> 13) \<or> (28 \<le> n \<and> n \<le> 32))"

definition chr_isalpha :: "char \<Rightarrow> bool" where
  "chr_isalpha c = (let n = of_char c :: nat in (65 \<le> n \<and> n \<le> 90) \<or> (97 \<le> n \<and> n \<le> 122))"

definition chr_isdigit :: "char \<Rightarrow> bool" where
  "chr_isdigit c = (let n = of_char c :: nat in 48 \<le> n \<and> n \<le> 57)"

definition chr_upper :: "char \<Rightarrow> char" where
  "chr_upper c = (let n = of_char c :: nat in if 97 \<le> n \<and> n \<le> 122 then char_of (n - 32) else c)"

definition chr_lower :: "char \<Rightarrow> char" where
  "chr_lower c = (let n = of_char c :: nat in if 65 \<le> n \<and> n \<le> 90 then char_of (n + 32) else c)"

definition str_strip :: "string \<Rightarrow> string" where
  \<comment> \<open>\<open>s.strip()\<close>: leading and trailing whitespace removed.\<close>
  "str_strip s = rev (dropWhile chr_isspace (rev (dropWhile chr_isspace s)))"

definition str_upper :: "string \<Rightarrow> string" where
  "str_upper s = map chr_upper s"

definition str_lower :: "string \<Rightarrow> string" where
  "str_lower s = map chr_lower s"

definition str_isalpha :: "string \<Rightarrow> bool" where
  \<comment> \<open>\<open>s.isalpha()\<close>: at least one character, and all of them letters.\<close>
  "str_isalpha s = (s \<noteq> [] \<and> list_all chr_isalpha s)"

subsection \<open>Text as code points\<close>

text \<open>
  The three tables of the Unicode character database that the validators consult: the
  code points that \<open>str.strip\<close> removes (those for which \<open>str.isspace\<close> holds), the
  letters (\<open>str.isalpha\<close>), and the full upper-case mapping that \<open>str.upper\<close> applies to
  each code point, which can give more than one code point.
\<close>

record ucd =
  uc_isspace :: "nat \<Rightarrow> bool"
  uc_isalpha :: "nat \<Rightarrow> bool"
  uc_upper :: "nat \<Rightarrow> nat list"

definition ustr_strip :: "ucd \<Rightarrow> nat list \<Rightarrow> nat list" where
  "ustr_strip U s = rev (dropWhile (uc_isspace U) (rev (dropWhile (uc_isspace U) s)))"

definition ustr_upper :: "ucd \<Rightarrow> nat list \<Rightarrow> nat list" where
  "ustr_upper U s = concat (map (uc_upper U) s)"

definition ustr_isalpha :: "ucd \<Rightarrow> nat list \<Rightarrow> bool" where
  "ustr_isalpha U s = (s \<noteq> [] \<and> list_all (uc_isalpha U) s)"

definition ascii_ucd :: "ucd \<Rightarrow> bool" where
  \<comment> \<open>on the code points below 128 the tables are the ASCII ones given above\<close>
  "ascii_ucd U =
     (\<forall>c < 128.
        uc_isspace U c = chr_isspace (char_of c)
      \<and> uc_isalpha U c = chr_isalpha (char_of c)
      \<and> uc_upper U c = [of_char (chr_upper (char_of c))])"

definition ucd_fragment :: ucd where
  \<comment> \<open>The entries of the database, as CPython 3.11 has them, for ASCII and for four more
      code points: U+01F0 (small j with caron) is a letter whose upper case is the two
      code points U+004A U+030C; U+030C (combining caron) is a mark, not a letter;
      U+0345 (combining ypogegrammeni) is a mark, not a letter, whose upper case is
      U+0399; U+0399 (capital iota) is a letter. Every other code point is left without
      case and is neither a letter nor a blank in this fragment.\<close>
  "ucd_fragment =
     \<lparr>uc_isspace = (\<lambda>c. (9 \<le> c \<and> c \<le> 13) \<or> (28 \<le> c \<and> c \<le> 32)),
      uc_isalpha = (\<lambda>c. (65 \<le> c \<and> c \<le> 90) \<or> (97 \<le> c \<and> c \<le> 122)
                           \<or> c = 0x1F0 \<or> c = 0x399),
      uc_upper = (\<lambda>c. if 97 \<le> c \<and> c \<le> 122 then [c - 32]
                        else if c = 0x1F0 then [0x4A, 0x30C]
                        else if c = 0x345 then [0x399]
                        else [c])\<rparr>"

subsection \<open>Arbitrary-precision decimals\<close>

text \<open>
  A \<open>decimal.Decimal\<close> is a sign, a coefficient and an exponent, or one of the special
  values. \<open>Finite s c e\<close> stands for \<open>(-1)^s * c * 10^e\<close>; the coefficient is an unbounded
  natural number, so no digit of the input is rounded away.
\<close>

datatype decimal =
    Finite bool nat int
  | Infinity bool
  | NaN bool bool nat  \<comment> \<open>sign, signalling, diagnostic payload\<close>

definition digit_val :: "char \<Rightarrow> nat" where
  "digit_val c = of_char c - 48"

definition int_of_digits :: "string \<Rightarrow> nat" where
  "int_of_digits ds = foldl (\<lambda>a c. 10 * a + digit_val c) 0 ds"

definition parse_exponent :: "string \<Rightarrow> int option" where
  \<comment> \<open>the optional exponent part \<open>(E[-+]?\d+)?\<close> up to the end of the text\<close>
  "parse_exponent r =
     (case r of
        [] \<Rightarrow> Some 0
      | e # r1 \<Rightarrow>
          if chr_lower e \<noteq> CHR ''e'' then None
          else
            (let (neg, ds) =
                   (case r1 of
                      [] \<Rightarrow> (False, [])
                    | c # r2 \<Rightarrow>
                        if c = CHR ''-'' then (True, r2)
                        else if c = CHR ''+'' then (False, r2)
                        else (False, r1))
             in if ds \<noteq> [] \<and> list_all chr_isdigit ds
                then Some (if neg then - int (int_of_digits ds) else int (int_of_digits ds))
                else None))"

definition parse_finite :: "bool \<Rightarrow> string \<Rightarrow> decimal option" where
  \<comment> \<open>digits with an optional fraction and exponent; at least one digit is required\<close>
  "parse_finite sign body =
     (let intpart = takeWhile chr_isdigit body;
          r1 = dropWhile chr_isdigit body;
          (fracpart, r2) =
            (case r1 of
               [] \<Rightarrow> ([], [])
             | c # r \<Rightarrow>
                 if c = CHR ''.'' then (takeWhile chr_isdigit r, dropWhile chr_isdigit r)
                 else ([], r1))
      in if intpart = [] \<and> fracpart = [] then None
         else
           (case parse_exponent r2 of
              None \<Rightarrow> None
            | Some e \<Rightarrow>
                Some (Finite sign (int_of_digits (intpart @ fracpart)) (e - int (length fracpart)))))"

definition parse_special :: "bool \<Rightarrow> string \<Rightarrow> decimal option" where
  \<comment> \<open>\<open>Inf\<close>, \<open>Infinity\<close>, \<open>NaN\<close> and \<open>sNaN\<close> with optional diagnostic digits, in any letter case\<close>
  "parse_special sign body =
     (let b = str_lower body in
      if b = ''inf'' \<or> b = ''infinity'' then Some (Infinity sign)
      else if take 3 b = ''nan'' \<and> list_all chr_isdigit (drop 3 b)
        then Some (NaN sign False (int_of_digits (drop 3 b)))
      else if take 4 b = ''snan'' \<and> list_all chr_isdigit (drop 4 b)
        then Some (NaN sign True (int_of_digits (drop 4 b)))
      else None)"

definition Decimal_of_str :: "string \<Rightarrow> decimal option" where
  \<comment> \<open>\<open>Decimal(s)\<close> of the standard library, following its documented grammar: surrounding
      whitespace and all underscores are dropped, then an optional sign and a numeric value.
      \<open>None\<close> stands for \<open>decimal.InvalidOperation\<close> raised by the constructor. The size
      limits of the C implementation on exponents are not modelled.\<close>
  "Decimal_of_str s =
     (let v = filter (\<lambda>c. c \<noteq> CHR ''_'') (str_strip s);
          (sign, body) =
            (case v of
               [] \<Rightarrow> (False, [])
             | c # r \<Rightarrow>
                 if c = CHR ''-'' then (True, r)
                 else if c = CHR ''+'' then (False, r)
                 else (False, v))
      in case parse_finite sign body of
           Some d \<Rightarrow> Some d
         | None \<Rightarrow> parse_special sign body)"

definition decimal_value :: "decimal \<Rightarrow> rat option" where
  \<comment> \<open>the number a finite decimal denotes\<close>
  "decimal_value d =
     (case d of
        Finite s c e \<Rightarrow>
          Some ((if s then - 1 else 1) * of_nat c *
                (if 0 \<le> e then 10 ^ nat e else 1 / 10 ^ nat (- e)))
      | _ \<Rightarrow> None)"

section \<open>Errors\<close>

text \<open>
  The text of a \<open>ValueError\<close> raised by a validator is an f-string; a \<open>message\<close> names the
  template and carries the values interpolated into it.
\<close>

datatype 's message =
    Symbol_empty                    \<comment> \<open>Symbol cannot be empty.\<close>
  | Symbol_invalid 's           \<comment> \<open>Symbol '...' is invalid. Use alphanumeric characters only\<close>
  | Side_invalid 's             \<comment> \<open>Side '...' is invalid. Choose from: BUY, SELL.\<close>
  | Order_type_invalid 's       \<comment> \<open>Order type '...' is invalid. Choose from: ...\<close>
  | Quantity_not_number 's      \<comment> \<open>Quantity '...' is not a valid number.\<close>
  | Quantity_not_positive decimal   \<comment> \<open>Quantity must be greater than 0 (got ...).\<close>
  | Price_required                  \<comment> \<open>Price is required for LIMIT orders.\<close>
  | Price_not_number 's         \<comment> \<open>Price '...' is not a valid number.\<close>
  | Price_not_positive decimal      \<comment> \<open>Price must be greater than 0 (got ...).\<close>
  | Stop_price_required             \<comment> \<open>Stop price is required for STOP_MARKET orders.\<close>
  | Stop_price_not_number 's    \<comment> \<open>Stop price '...' is not a valid number.\<close>
  | Stop_price_not_positive decimal \<comment> \<open>Stop price must be greater than 0 (got ...).\<close>

datatype 's verror =
    ValueError "'s message"
  | InvalidOperation  \<comment> \<open>\<open>decimal.InvalidOperation\<close>, an \<open>ArithmeticError\<close>\<close>

definition decimal_le_zero :: "decimal \<Rightarrow> 's verror + bool" where
  \<comment> \<open>\<open>d <= 0\<close> under the default context: an ordering comparison with a NaN signals
      \<open>InvalidOperation\<close>, which the default context traps\<close>
  "decimal_le_zero d =
     (case d of
        Finite s c e \<Rightarrow> Inr (c = 0 \<or> s)
      | Infinity s \<Rightarrow> Inr s
      | NaN s sig p \<Rightarrow> Inl InvalidOperation)"

section \<open>Validators (bot/validators.py)\<close>



definition validate_symbol :: "string \<Rightarrow> string verror + string" where
  "validate_symbol raw =
     (let symbol = str_upper (str_strip raw) in
      if symbol = [] then Inl (ValueError Symbol_empty)
      else if \<not> str_isalpha symbol then Inl (ValueError (Symbol_invalid symbol))
      else Inr symbol)"

text \<open>
  The same function on arbitrary text, as a list of code points. \<open>validate_symbol\<close> above
  is its restriction to ASCII text.
\<close>

definition validate_symbol_unicode :: "ucd \<Rightarrow> nat list \<Rightarrow> nat list verror + nat list" where
  "validate_symbol_unicode U raw =
     (let symbol = ustr_upper U (ustr_strip U raw) in
      if symbol = [] then Inl (ValueError Symbol_empty)
      else if \<not> ustr_isalpha U symbol then Inl (ValueError (Symbol_invalid symbol))
      else Inr symbol)"



text \<open>
  The quantity and the price arrive as text (the command line passes strings; a float
  would pass through \<open>str\<close> first). The comparison \<open>qty <= 0\<close> stands outside the
  \<open>try\<close> block of the source, so what it raises is not turned into a \<open>ValueError\<close>.
\<close>

definition validate_quantity :: "string \<Rightarrow> string verror + decimal" where
  "validate_quantity quantity =
     (case Decimal_of_str quantity of
        None \<Rightarrow> Inl (ValueError (Quantity_not_number quantity))
      | Some qty \<Rightarrow>
          (case decimal_le_zero qty of
             Inl e \<Rightarrow> Inl e
           | Inr True \<Rightarrow> Inl (ValueError (Quantity_not_positive qty))
           | Inr False \<Rightarrow> Inr qty))"

definition validate_price :: "string option \<Rightarrow> string \<Rightarrow> string verror + decimal option" where
  "validate_price price order_type =
     (if order_type = ''LIMIT'' then
        (case price of
           None \<Rightarrow> Inl (ValueError Price_required)
         | Some txt \<Rightarrow>
             (case Decimal_of_str txt of
                None \<Rightarrow> Inl (ValueError (Price_not_number txt))
              | Some p \<Rightarrow>
                  (case decimal_le_zero p of
                     Inl e \<Rightarrow> Inl e
                   | Inr True \<Rightarrow> Inl (ValueError (Price_not_positive p))
                   | Inr False \<Rightarrow> Inr (Some p))))
      else if order_type = ''STOP_MARKET'' then
        (case price of
           None \<Rightarrow> Inl (ValueError Stop_price_required)
         | Some txt \<Rightarrow>
             (case Decimal_of_str txt of
                None \<Rightarrow> Inl (ValueError (Stop_price_not_number txt))
              | Some p \<Rightarrow>
                  (case decimal_le_zero p of
                     Inl e \<Rightarrow> Inl e
                   | Inr True \<Rightarrow> Inl (ValueError (Stop_price_not_positive p))
                   | Inr False \<Rightarrow> Inr (Some p))))
      else Inr None)"



section \<open>Dictionaries, JSON values and the store\<close>

text \<open>
  The values that the client puts into a parameter dictionary are strings, integers and
  \<open>None\<close>. A \<open>dict\<close> keeps its keys in insertion order, and assigning to a key that is
  present keeps the key's position; it is an association list with distinct keys.
\<close>

datatype pyval = VStr string | VInt int | VNone

type_synonym pydict = "(string \<times> pyval) list"

fun dict_set :: "pydict \<Rightarrow> string \<Rightarrow> pyval \<Rightarrow> pydict" where
  "dict_set [] k v = [(k, v)]"
| "dict_set ((k', v') # d) k v =
     (if k' = k then (k', v) # d else (k', v') # dict_set d k v)"

definition dict_get :: "pydict \<Rightarrow> string \<Rightarrow> pyval option" where
  "dict_get d k = map_of d k"

definition dict_keys :: "pydict \<Rightarrow> string list" where
  "dict_keys d = map fst d"

definition dict_without :: "pydict \<Rightarrow> string \<Rightarrow> pydict" where
  \<comment> \<open>the entries of \<open>d\<close> other than the one for \<open>k\<close>, in order\<close>
  "dict_without d k = filter (\<lambda>kv. fst kv \<noteq> k) d"

datatype pyfloat = Float rat | Float_inf bool | Float_nan

datatype json =
    JNull
  | JBool bool
  | JInt int
  | JFloat pyfloat
  | JStr string
  | JArr "json list"
  | JObj "(string \<times> json) list"

definition json_ne_int :: "json \<Rightarrow> int \<Rightarrow> bool" where
  \<comment> \<open>\<open>v != n\<close> for a decoded JSON value \<open>v\<close> and an \<open>int\<close> \<open>n\<close>: numbers compare by
      value (\<open>True\<close> and \<open>False\<close> count as 1 and 0), anything else differs from a number\<close>
  "json_ne_int v n =
     (case v of
        JInt i \<Rightarrow> i \<noteq> n
      | JBool b \<Rightarrow> (if b then 1 else 0) \<noteq> n
      | JFloat f \<Rightarrow> (case f of Float r \<Rightarrow> r \<noteq> of_int n | _ \<Rightarrow> True)
      | _ \<Rightarrow> True)"

definition json_get :: "(string \<times> json) list \<Rightarrow> string \<Rightarrow> json \<Rightarrow> json" where
  \<comment> \<open>\<open>data.get(k, default)\<close>\<close>
  "json_get d k dflt = (case map_of d k of Some v \<Rightarrow> v | None \<Rightarrow> dflt)"

text \<open>
  Exceptions that can leave the \<open>try\<close> block of the request executor. \<open>Timeout\<close>,
  \<open>ReqConnectionError\<close> and \<open>RequestException\<close> are the classes of
  \<open>requests.exceptions\<close> that the executor catches (the last one stands for every other
  subclass of \<open>RequestException\<close>); \<open>OtherException\<close> is any exception outside that
  hierarchy.
\<close>

datatype exn =
    RuntimeError string
  | Timeout string
  | ReqConnectionError string
  | RequestException string
  | OtherException string

datatype error =
    BinanceAPIError json json int      \<comment> \<open>code, msg, status_code\<close>
  | ConnectionError string int exn     \<comment> \<open>url, number of attempts, and the cause\<close>
  | Uncaught exn
  | AttributeError

datatype placement = Query | Body

record http_request =
  rq_method :: string
  rq_url :: string
  rq_placement :: placement
  rq_payload :: pydict
  rq_timeout :: int

datatype outcome =
    Raises exn
  | Responds int json  \<comment> \<open>\<open>status_code\<close> and the value of \<open>response.json()\<close>\<close>

datatype event = Clock_read | Send http_request | Sleep int

text \<open>
  What the client does not own: the HMAC-SHA256 primitive of the standard library (key
  bytes and message bytes to the 32 digest bytes), the wall clock (the reading that the
  n-th call of \<open>time.time\<close> gives, in milliseconds) and the network (what the n-th call of
  \<open>session.request\<close> followed by \<open>response.json\<close> gives for the request passed).
\<close>

record env =
  hmac_sha256 :: "string \<Rightarrow> string \<Rightarrow> string"
  clock_ms :: "nat \<Rightarrow> int"
  transport :: "nat \<Rightarrow> http_request \<Rightarrow> outcome"

text \<open>
  Dictionaries are objects: the store maps an address to the dictionary living there, so
  that a mutation is seen by every holder of the reference. The trace records the clock
  readings, network calls and sleeps in the order they happen.
\<close>

record world =
  heap :: "pydict list"
  n_reads :: nat
  n_sent :: nat
  trace :: "event list"

definition deref :: "world \<Rightarrow> nat \<Rightarrow> pydict" where
  "deref w a = heap w ! a"

definition alloc :: "pydict \<Rightarrow> world \<Rightarrow> nat \<times> world" where
  "alloc d w = (length (heap w), w\<lparr>heap := heap w @ [d]\<rparr>)"

definition setitem :: "nat \<Rightarrow> string \<Rightarrow> pyval \<Rightarrow> world \<Rightarrow> world" where
  \<comment> \<open>\<open>params[k] = v\<close> on the dictionary at address \<open>a\<close>\<close>
  "setitem a k v w = w\<lparr>heap := (heap w)[a := dict_set (heap w ! a) k v]\<rparr>"

definition sleep :: "int \<Rightarrow> world \<Rightarrow> world" where
  "sleep secs w = w\<lparr>trace := trace w @ [Sleep secs]\<rparr>"

section \<open>Text encodings of the standard library\<close>

function str_of_nat :: "nat \<Rightarrow> string" where
  "str_of_nat n =
     (if n < 10 then [char_of (48 + n)]
      else str_of_nat (n div 10) @ [char_of (48 + n mod 10)])"
  by pat_completeness auto
termination
  by (relation "measure id") auto

definition str_of_int :: "int \<Rightarrow> string" where
  "str_of_int i = (if i < 0 then CHR ''-'' # str_of_nat (nat (- i)) else str_of_nat (nat i))"

definition py_str :: "pyval \<Rightarrow> string" where
  \<comment> \<open>\<open>str(v)\<close>\<close>
  "py_str v = (case v of VStr s \<Rightarrow> s | VInt i \<Rightarrow> str_of_int i | VNone \<Rightarrow> ''None'')"

definition hex_lower :: "nat \<Rightarrow> char" where
  "hex_lower n = ''0123456789abcdef'' ! (n mod 16)"

definition hex_upper :: "nat \<Rightarrow> char" where
  "hex_upper n = ''0123456789ABCDEF'' ! (n mod 16)"

definition quote_plus_chr :: "char \<Rightarrow> string" where
  "quote_plus_chr c =
     (if c = CHR '' '' then ''+''
      else if chr_isalpha c \<or> chr_isdigit c \<or> c \<in> set ''_.-~'' then [c]
      else [CHR ''%'', hex_upper (of_char c div 16), hex_upper (of_char c mod 16)])"

definition quote_plus :: "string \<Rightarrow> string" where
  \<comment> \<open>\<open>urllib.parse.quote_plus\<close>: letters, digits and \<open>_.-~\<close> stay, a blank becomes
      \<open>+\<close>, every other byte becomes \<open>%XX\<close>\<close>
  "quote_plus s = concat (map quote_plus_chr s)"

fun join_amp :: "string list \<Rightarrow> string" where
  "join_amp [] = []"
| "join_amp [x] = x"
| "join_amp (x # y # ys) = x @ ''&'' @ join_amp (y # ys)"

definition urlencode :: "pydict \<Rightarrow> string" where
  \<comment> \<open>\<open>urllib.parse.urlencode\<close> of a dict: \<open>key=value\<close> pairs in the order of the dict\<close>
  "urlencode params =
     join_amp (map (\<lambda>kv. quote_plus (fst kv) @ ''='' @ quote_plus (py_str (snd kv))) params)"

definition encode_utf8 :: "string \<Rightarrow> string" where
  \<comment> \<open>ASCII text is its own UTF-8 encoding\<close>
  "encode_utf8 s = s"

definition hexdigest :: "string \<Rightarrow> string" where
  \<comment> \<open>two lowercase hexadecimal digits for each byte of the digest\<close>
  "hexdigest bs =
     concat (map (\<lambda>b. [hex_lower (of_char b div 16), hex_lower (of_char b mod 16)]) bs)"

section \<open>The client (bot/client.py)\<close>

definition RECV_WINDOW :: int where
  "RECV_WINDOW = 5000"

record client =
  api_key :: string
  api_secret :: string
  base_url :: string
  timeout :: int
  max_retries :: int

definition timestamp :: "env \<Rightarrow> world \<Rightarrow> int \<times> world" where
  "timestamp E w =
     (clock_ms E (n_reads w), w\<lparr>n_reads := n_reads w + 1, trace := trace w @ [Clock_read]\<rparr>)"

definition sign :: "env \<Rightarrow> client \<Rightarrow> pydict \<Rightarrow> string" where
  "sign E c params =
     (let query_string = urlencode params
      in hexdigest (hmac_sha256 E (encode_utf8 (api_secret c)) (encode_utf8 query_string)))"

definition build_signed_params :: "env \<Rightarrow> client \<Rightarrow> nat \<Rightarrow> world \<Rightarrow> nat \<times> world" where
  "build_signed_params E c params w =
     (let (t, w1) = timestamp E w;
          w2 = setitem params ''timestamp'' (VInt t) w1;
          w3 = setitem params ''recvWindow'' (VInt RECV_WINDOW) w2;
          w4 = setitem params ''signature'' (VStr (sign E c (deref w3 params))) w3
      in (params, w4))"

definition or_empty_dict :: "nat option \<Rightarrow> world \<Rightarrow> nat \<times> world" where
  \<comment> \<open>\<open>params or {}\<close>: \<open>None\<close> and an empty dictionary are both false, and give a new one\<close>
  "or_empty_dict params w =
     (case params of
        None \<Rightarrow> alloc [] w
      | Some a \<Rightarrow> if deref w a = [] then alloc [] w else (a, w))"

definition py_range :: "int \<Rightarrow> int \<Rightarrow> int list" where
  "py_range a b = [a..b - 1]"

definition retryable :: "exn \<Rightarrow> bool" where
  \<comment> \<open>the three \<open>except\<close> clauses that record the exception and go on\<close>
  "retryable exc =
     (case exc of
        Timeout m \<Rightarrow> True
      | ReqConnectionError m \<Rightarrow> True
      | RequestException m \<Rightarrow> True
      | _ \<Rightarrow> False)"

definition mk_request :: "client \<Rightarrow> string \<Rightarrow> string \<Rightarrow> pydict \<Rightarrow> http_request" where
  \<comment> \<open>GET and DELETE carry the parameters in the query string, the rest in the body\<close>
  "mk_request c method url payload =
     \<lparr>rq_method = method, rq_url = url,
      rq_placement = (if str_upper method \<in> {''GET'', ''DELETE''} then Query else Body),
      rq_payload = payload, rq_timeout = timeout c\<rparr>"

fun attempts ::
  "env \<Rightarrow> client \<Rightarrow> string \<Rightarrow> string \<Rightarrow> nat \<Rightarrow> int list \<Rightarrow> exn \<Rightarrow> world
     \<Rightarrow> (error + json) \<times> world" where
  "attempts E c method url params [] last_exception w =
     (Inl (ConnectionError url (max_retries c) last_exception), w)"
| "attempts E c method url params (attempt # rest) last_exception w =
     (let rq = mk_request c method url (deref w params);
          w1 = w\<lparr>n_sent := n_sent w + 1, trace := trace w @ [Send rq]\<rparr>
      in case transport E (n_sent w) rq of
           Responds status_code data \<Rightarrow>
             (case data of
                JObj d \<Rightarrow>
                  (case map_of d ''code'' of
                     Some code \<Rightarrow>
                       if json_ne_int code 200
                       then (Inl (BinanceAPIError (json_get d ''code'' (JInt (- 1)))
                                    (json_get d ''msg'' (JStr ''Unknown error'')) status_code), w1)
                       else (Inr data, w1)
                   | None \<Rightarrow> (Inr data, w1))
              | _ \<Rightarrow> (Inr data, w1))
         | Raises exc \<Rightarrow>
             if retryable exc then
               attempts E c method url params rest exc
                 (if attempt < max_retries c then sleep (2 ^ nat (attempt - 1)) w1 else w1)
             else (Inl (Uncaught exc), w1))"

definition request ::
  "env \<Rightarrow> client \<Rightarrow> string \<Rightarrow> string \<Rightarrow> nat option \<Rightarrow> bool \<Rightarrow> world
     \<Rightarrow> (error + json) \<times> world" where
  "request E c method endpoint params signed w =
     (let url = base_url c @ endpoint;
          (a, w1) = or_empty_dict params w;
          (a, w2) = (if signed then build_signed_params E c a w1 else (a, w1))
      in attempts E c method url a (py_range 1 (max_retries c + 1))
           (RuntimeError ''No attempts made.'') w2)"

definition str_or_none :: "string option \<Rightarrow> pyval" where
  "str_or_none x = (case x of None \<Rightarrow> VNone | Some s \<Rightarrow> VStr s)"

definition place_order_params ::
  "string \<Rightarrow> string \<Rightarrow> string \<Rightarrow> string \<Rightarrow> string option \<Rightarrow> string option \<Rightarrow> string option
     \<Rightarrow> bool \<Rightarrow> string \<Rightarrow> pydict" where
  \<comment> \<open>the dictionary \<open>params\<close> that \<open>place_order\<close> assembles before the request\<close>
  "place_order_params symbol side order_type quantity price time_in_force stop_price
       reduce_only position_side =
     (let p0 = [(''symbol'', VStr symbol), (''side'', VStr side), (''type'', VStr order_type),
                (''quantity'', VStr quantity), (''positionSide'', VStr position_side)];
          p1 = (if order_type = ''LIMIT''
                then dict_set (dict_set p0 ''price'' (str_or_none price)) ''timeInForce''
                       (VStr (case time_in_force of
                                None \<Rightarrow> ''GTC''
                              | Some tif \<Rightarrow> if tif = [] then ''GTC'' else tif))
                else p0);
          p2 = (if order_type = ''STOP_MARKET''
                then dict_set p1 ''stopPrice'' (str_or_none stop_price) else p1);
          p3 = (if reduce_only then dict_set p2 ''reduceOnly'' (VStr ''true'') else p2)
      in p3)"

definition place_order ::
  "env \<Rightarrow> client \<Rightarrow> string \<Rightarrow> string \<Rightarrow> string \<Rightarrow> string \<Rightarrow> string option \<Rightarrow> string option
     \<Rightarrow> string option \<Rightarrow> bool \<Rightarrow> string \<Rightarrow> world \<Rightarrow> (error + json) \<times> world" where
  \<comment> \<open>the response must offer \<open>.get\<close>, as the log line reads its \<open>orderId\<close>\<close>
  "place_order E c symbol side order_type quantity price time_in_force stop_price
       reduce_only position_side w =
     (let (params, w1) =
            alloc (place_order_params symbol side order_type quantity price time_in_force
                     stop_price reduce_only position_side) w;
          (r, w2) = request E c ''POST'' ''/fapi/v1/order'' (Some params) True w1
      in case r of
           Inl e \<Rightarrow> (Inl e, w2)
         | Inr response \<Rightarrow>
             (case response of
                JObj d \<Rightarrow> (Inr response, w2)
              | _ \<Rightarrow> (Inl AttributeError, w2)))"

section \<open>Event sequences and a sample environment\<close>

definition backoff_events :: "http_request \<Rightarrow> int \<Rightarrow> int list \<Rightarrow> event list" where
  \<comment> \<open>what a run of failed attempts with the numbers \<open>as\<close> leaves in the trace, when
      \<open>m\<close> is the number of tries allowed\<close>
  "backoff_events rq m as =
     concat (map (\<lambda>i. Send rq # (if i < m then [Sleep (2 ^ nat (i - 1))] else [])) as)"

definition retry_events :: "http_request \<Rightarrow> int list \<Rightarrow> event list" where
  \<comment> \<open>attempts that are each followed by the sleep of \<open>2 ^ (attempt - 1)\<close> seconds\<close>
  "retry_events rq as = concat (map (\<lambda>i. [Send rq, Sleep (2 ^ nat (i - 1))]) as)"

definition sends :: "event list \<Rightarrow> http_request list" where
  "sends evs = concat (map (\<lambda>e. case e of Send rq \<Rightarrow> [rq] | _ \<Rightarrow> []) evs)"

definition sleeps :: "event list \<Rightarrow> int list" where
  "sleeps evs = concat (map (\<lambda>e. case e of Sleep s \<Rightarrow> [s] | _ \<Rightarrow> []) evs)"

definition extended_params :: "int \<Rightarrow> pydict \<Rightarrow> pydict" where
  \<comment> \<open>a mapping with the time stamp \<open>t\<close> and the receive window put in\<close>
  "extended_params t d =
     dict_set (dict_set d ''timestamp'' (VInt t)) ''recvWindow'' (VInt RECV_WINDOW)"

definition signed_params :: "env \<Rightarrow> client \<Rightarrow> int \<Rightarrow> pydict \<Rightarrow> pydict" where
  \<comment> \<open>the extended mapping together with the signature of the extended mapping\<close>
  "signed_params E c t d =
     dict_set (extended_params t d) ''signature'' (VStr (sign E c (extended_params t d)))"

text \<open>
  A sample environment for concrete runs. Its stand-in for the HMAC returns the message,
  so that the text that was signed can be read off the signature; its clock starts at
  1000 and advances by a second with every reading; its network times out twice, then
  rejects with the payload \<open>{"code": -1121, "msg": "Invalid symbol."}\<close>.
\<close>

definition sample_env :: env where
  "sample_env =
     \<lparr>hmac_sha256 = (\<lambda>key msg. msg),
      clock_ms = (\<lambda>n. 1000 + 1000 * int n),
      transport = (\<lambda>n rq. if n < 2 then Raises (Timeout ''timed out'')
                           else Responds 400 (JObj [(''code'', JInt (- 1121)),
                                                     (''msg'', JStr ''Invalid symbol.'')]))\<rparr>"

definition down_env :: env where
  \<comment> \<open>the same, with a network that refuses every connection\<close>
  "down_env = sample_env\<lparr>transport := (\<lambda>n rq. Raises (ReqConnectionError ''refused''))\<rparr>"

definition sample_client :: client where
  "sample_client =
     \<lparr>api_key = ''key'', api_secret = ''secret'', base_url = ''https://testnet'',
      timeout = 10, max_retries = 3\<rparr>"

definition empty_world :: world where
  "empty_world = \<lparr>heap = [], n_reads = 0, n_sent = 0, trace = []\<rparr>"

section \<open>Properties of the validators\<close>

lemma chr_isalpha_upper: "chr_isalpha (chr_upper c) = chr_isalpha c"
  by (auto simp: chr_isalpha_def chr_upper_def Let_def of_char_of)

lemma Decimal_of_str_NaN: "Decimal_of_str ''NaN'' = Some (NaN False False 0)"
  by code_simp

lemma Decimal_of_str_Infinity: "Decimal_of_str ''Infinity'' = Some (Infinity False)"
  by code_simp

lemma Decimal_of_str_10_5: "Decimal_of_str ''10.5'' = Some (Finite False 105 (- 1))"
  by code_simp

lemma decimal_le_zero_value:
  "decimal_value (Finite s c e) = Some v \<Longrightarrow> decimal_le_zero (Finite s c e) = Inr (v \<le> 0)"
proof -
  assume a: "decimal_value (Finite s c e) = Some v"
  have pos: "\<And>n. (0::rat) < 10 ^ n" by simp
  have npos: "\<And>n. \<not> (10::rat) ^ n \<le> 0" by (simp add: not_le)
  from a show ?thesis
    using pos [of "nat e"] pos [of "nat (- e)"] npos
    by (auto simp: decimal_value_def decimal_le_zero_def mult_le_0_iff divide_le_0_iff
        zero_le_mult_iff zero_le_divide_iff split: if_splits)
qed

lemma ustr_strip_subset: "set (ustr_strip U s) \<subseteq> set s"
proof -
  have "set (ustr_strip U s) \<subseteq> set (dropWhile (uc_isspace U) s)"
    unfolding ustr_strip_def using set_dropWhileD [of _ "uc_isspace U" "rev (dropWhile (uc_isspace U) s)"]
    by auto
  also have "\<dots> \<subseteq> set s"
    using set_dropWhileD [of _ "uc_isspace U" s] by auto
  finally show ?thesis .
qed

lemma chr_upper_le: "(of_char (chr_upper c) :: nat) \<le> of_char c"
proof -
  have "((of_char c :: nat) - 32) mod 256 \<le> of_char c - 32"
    by (rule mod_less_eq_dividend)
  then have "((of_char c :: nat) - 32) mod 256 \<le> of_char c"
    by simp
  then show ?thesis
    by (simp add: chr_upper_def Let_def of_char_of)
qed

lemma ascii_upper_letter:
  assumes "ascii_ucd U" and "c < 128"
  shows "uc_upper U c \<noteq> [] \<and> list_all (uc_isalpha U) (uc_upper U c) = uc_isalpha U c"
proof -
  let ?d = "of_char (chr_upper (char_of c)) :: nat"
  have cc: "(of_char (char_of c) :: nat) = c"
    using assms(2) by (simp add: of_char_of)
  have u: "uc_upper U c = [?d]"
    using assms by (simp add: ascii_ucd_def)
  have "?d \<le> of_char (char_of c)" by (rule chr_upper_le)
  with cc assms(2) have d: "?d < 128" by simp
  from assms(1) d have "uc_isalpha U ?d = chr_isalpha (char_of ?d)"
    by (simp add: ascii_ucd_def)
  also have "\<dots> = chr_isalpha (char_of c)"
    by (simp add: chr_isalpha_upper)
  also have "\<dots> = uc_isalpha U c"
    using assms by (simp add: ascii_ucd_def)
  finally show ?thesis using u by simp
qed

lemma ascii_upper_letters:
  assumes "ascii_ucd U" and "\<forall>c \<in> set t. c < 128"
  shows "(ustr_upper U t = [] \<longleftrightarrow> t = [])
       \<and> list_all (uc_isalpha U) (ustr_upper U t) = list_all (uc_isalpha U) t"
  using assms(2)
proof (induction t)
  case Nil
  show ?case by (simp add: ustr_upper_def)
next
  case (Cons c t)
  then have c: "c < 128" and t: "\<forall>c \<in> set t. c < 128" by simp_all
  from ascii_upper_letter [OF assms(1) c] Cons.IH [OF t]
  show ?case by (simp add: ustr_upper_def)
qed

lemma ascii_ucd_fragment: "ascii_ucd ucd_fragment"
  by (auto simp: ascii_ucd_def ucd_fragment_def chr_isspace_def chr_isalpha_def chr_upper_def
      Let_def of_char_of)

lemma caron_rejected:
  assumes "\<not> uc_isspace U 0x1F0" and "uc_upper U 0x1F0 = [0x4A, 0x30C]"
    and "\<not> uc_isalpha U 0x30C"
  shows "validate_symbol_unicode U [0x1F0] = Inl (ValueError (Symbol_invalid [0x4A, 0x30C]))"
  using assms
  by (simp add: validate_symbol_unicode_def ustr_strip_def ustr_upper_def ustr_isalpha_def)

lemma ypogegrammeni_accepted:
  assumes "\<not> uc_isspace U 0x345" and "uc_upper U 0x345 = [0x399]" and "uc_isalpha U 0x399"
  shows "validate_symbol_unicode U [0x345] = Inr [0x399]"
  using assms
  by (simp add: validate_symbol_unicode_def ustr_strip_def ustr_upper_def ustr_isalpha_def)

text \<open>
  On ASCII text and with tables that are the ASCII ones below 128, the function on code
  points is \<open>validate_symbol\<close>, character by character.
\<close>

lemma ascii_isspace: "ascii_ucd U \<Longrightarrow> chr_isascii c \<Longrightarrow> uc_isspace U (of_char c) = chr_isspace c"
  by (simp add: ascii_ucd_def chr_isascii_def)

lemma ascii_isalpha: "ascii_ucd U \<Longrightarrow> chr_isascii c \<Longrightarrow> uc_isalpha U (of_char c) = chr_isalpha c"
  by (simp add: ascii_ucd_def chr_isascii_def)

lemma ascii_upper: "ascii_ucd U \<Longrightarrow> chr_isascii c \<Longrightarrow> uc_upper U (of_char c) = [of_char (chr_upper c)]"
  by (simp add: ascii_ucd_def chr_isascii_def)

lemma chr_upper_ascii: "chr_isascii c \<Longrightarrow> chr_isascii (chr_upper c)"
  using chr_upper_le [of c] by (simp add: chr_isascii_def)

lemma str_upper_ascii: "str_isascii t \<Longrightarrow> str_isascii (str_upper t)"
  by (induction t) (simp_all add: str_isascii_def str_upper_def chr_upper_ascii)

lemma str_strip_subset: "set (str_strip s) \<subseteq> set s"
proof -
  have "set (str_strip s) \<subseteq> set (dropWhile chr_isspace s)"
    unfolding str_strip_def using set_dropWhileD [of _ chr_isspace "rev (dropWhile chr_isspace s)"]
    by auto
  also have "\<dots> \<subseteq> set s"
    using set_dropWhileD [of _ chr_isspace s] by auto
  finally show ?thesis .
qed

lemma str_strip_ascii: "str_isascii s \<Longrightarrow> str_isascii (str_strip s)"
  using str_strip_subset [of s] by (auto simp: str_isascii_def list_all_iff)

lemma dropWhile_ascii:
  assumes "ascii_ucd U" and "str_isascii s"
  shows "dropWhile (uc_isspace U) (map of_char s) = map of_char (dropWhile chr_isspace s)"
  using assms(2)
  by (induction s) (simp_all add: str_isascii_def ascii_isspace [OF assms(1)])

lemma ustr_strip_ascii:
  assumes "ascii_ucd U" and "str_isascii s"
  shows "ustr_strip U (map of_char s) = map of_char (str_strip s)"
proof -
  have a: "str_isascii (rev (dropWhile chr_isspace s))"
    using assms(2) set_dropWhileD [of _ chr_isspace s]
    by (auto simp: str_isascii_def list_all_iff)
  have "ustr_strip U (map of_char s)
          = rev (dropWhile (uc_isspace U) (rev (map of_char (dropWhile chr_isspace s))))"
    by (simp only: ustr_strip_def dropWhile_ascii [OF assms])
  also have "\<dots> = rev (dropWhile (uc_isspace U) (map of_char (rev (dropWhile chr_isspace s))))"
    by (simp only: rev_map)
  also have "\<dots> = rev (map of_char (dropWhile chr_isspace (rev (dropWhile chr_isspace s))))"
    by (simp only: dropWhile_ascii [OF assms(1) a])
  also have "\<dots> = map of_char (str_strip s)"
    by (simp only: rev_map str_strip_def)
  finally show ?thesis .
qed

lemma ustr_upper_ascii:
  assumes "ascii_ucd U" and "str_isascii t"
  shows "ustr_upper U (map of_char t) = map of_char (str_upper t)"
  using assms(2)
  by (induction t) (simp_all add: str_isascii_def ustr_upper_def str_upper_def
      ascii_upper [OF assms(1)])

lemma isalpha_ascii:
  assumes "ascii_ucd U" and "str_isascii t"
  shows "list_all (uc_isalpha U) (map of_char t) = list_all chr_isalpha t"
  using assms(2)
  by (induction t) (simp_all add: str_isascii_def ascii_isalpha [OF assms(1)])

lemma validate_symbol_restriction:
  assumes "ascii_ucd U" and "str_isascii s"
  shows "validate_symbol_unicode U (map of_char s)
           = map_sum (map_verror (map of_char)) (map of_char) (validate_symbol s)"
proof -
  have t: "str_isascii (str_strip s)" by (rule str_strip_ascii [OF assms(2)])
  have u: "str_isascii (str_upper (str_strip s))" by (rule str_upper_ascii [OF t])
  show ?thesis
    by (simp add: validate_symbol_unicode_def validate_symbol_def Let_def ustr_isalpha_def
        str_isalpha_def ustr_strip_ascii [OF assms] ustr_upper_ascii [OF assms(1) t]
        isalpha_ascii [OF assms(1) u])
qed

text \<open>
  C7, as amended. \<open>validate_symbol\<close> trims, upper-cases and then tests: it returns the
  upper-cased trimmed text when that text is not empty and consists of letters only, and
  raises a \<open>ValueError\<close> when that text is empty or holds a character that is not a
  letter. This holds for every text and every Unicode table. For ASCII text the test on
  the upper-cased text agrees with the test on the trimmed text, so there the function
  returns the upper-cased trimmed text when the trimmed text is not empty and consists of
  letters only, and fails when it is empty or holds a character that is not a letter.
\<close>

theorem validate_symbol_contract:
  "(ustr_upper U (ustr_strip U s) \<noteq> []
      \<and> list_all (uc_isalpha U) (ustr_upper U (ustr_strip U s))
      \<longrightarrow> validate_symbol_unicode U s = Inr (ustr_upper U (ustr_strip U s)))
 \<and> (ustr_upper U (ustr_strip U s) = []
      \<or> (\<exists>c \<in> set (ustr_upper U (ustr_strip U s)). \<not> uc_isalpha U c)
      \<longrightarrow> (\<exists>m. validate_symbol_unicode U s = Inl (ValueError m)))
 \<and> (ascii_ucd U \<and> (\<forall>c \<in> set s. c < 128) \<longrightarrow>
      (ustr_strip U s \<noteq> [] \<and> list_all (uc_isalpha U) (ustr_strip U s)
         \<longrightarrow> validate_symbol_unicode U s = Inr (ustr_upper U (ustr_strip U s)))
    \<and> (ustr_strip U s = [] \<or> (\<exists>c \<in> set (ustr_strip U s). \<not> uc_isalpha U c)
         \<longrightarrow> (\<exists>m. validate_symbol_unicode U s = Inl (ValueError m))))"
proof -
  let ?t = "ustr_strip U s"
  let ?u = "ustr_upper U ?t"
  have a: "?u \<noteq> [] \<and> list_all (uc_isalpha U) ?u \<longrightarrow> validate_symbol_unicode U s = Inr ?u"
    by (simp add: validate_symbol_unicode_def Let_def ustr_isalpha_def)
  have b: "?u = [] \<or> (\<exists>c \<in> set ?u. \<not> uc_isalpha U c)
             \<longrightarrow> (\<exists>m. validate_symbol_unicode U s = Inl (ValueError m))"
    by (simp add: validate_symbol_unicode_def Let_def ustr_isalpha_def) (simp add: list_all_iff)
  have c: "ascii_ucd U \<and> (\<forall>c \<in> set s. c < 128) \<longrightarrow>
      (?t \<noteq> [] \<and> list_all (uc_isalpha U) ?t \<longrightarrow> validate_symbol_unicode U s = Inr ?u)
    \<and> (?t = [] \<or> (\<exists>c \<in> set ?t. \<not> uc_isalpha U c)
         \<longrightarrow> (\<exists>m. validate_symbol_unicode U s = Inl (ValueError m)))"
  proof (intro impI)
    assume h: "ascii_ucd U \<and> (\<forall>c \<in> set s. c < 128)"
    then have "\<forall>c \<in> set ?t. c < 128"
      using ustr_strip_subset [of U s] by blast
    with h have e: "(?u = [] \<longleftrightarrow> ?t = [])"
      and l: "list_all (uc_isalpha U) ?u = list_all (uc_isalpha U) ?t"
      using ascii_upper_letters [of U ?t] by simp_all
    have l': "(\<exists>c \<in> set ?u. \<not> uc_isalpha U c) = (\<exists>c \<in> set ?t. \<not> uc_isalpha U c)"
      using l unfolding list_all_iff by blast
    show "(?t \<noteq> [] \<and> list_all (uc_isalpha U) ?t \<longrightarrow> validate_symbol_unicode U s = Inr ?u)
    \<and> (?t = [] \<or> (\<exists>c \<in> set ?t. \<not> uc_isalpha U c)
         \<longrightarrow> (\<exists>m. validate_symbol_unicode U s = Inl (ValueError m)))"
      using a b e l l' by simp
  qed
  from a b c show ?thesis by (intro conjI)
qed

theorem validate_symbol_contract_witness:
  "validate_symbol_unicode ucd_fragment (map of_char '' btcUsdt '') = Inr (map of_char ''BTCUSDT'')
 \<and> (\<exists>m. validate_symbol_unicode ucd_fragment (map of_char ''btc1'') = Inl (ValueError m))
 \<and> (\<exists>m. validate_symbol_unicode ucd_fragment [0x1F0] = Inl (ValueError m))"
proof -
  let ?U = ucd_fragment
  have a1: "\<forall>c \<in> set (map of_char '' btcUsdt ''). c < (128::nat)" by simp
  have a2: "\<forall>c \<in> set (map of_char ''btc1''). c < (128::nat)" by simp
  have s1: "ustr_strip ?U (map of_char '' btcUsdt '') = map of_char ''btcUsdt''"
    by (simp add: ustr_strip_def ucd_fragment_def)
  have s2: "ustr_strip ?U (map of_char ''btc1'') = map of_char ''btc1''"
    by (simp add: ustr_strip_def ucd_fragment_def)
  have u1: "ustr_upper ?U (map of_char ''btcUsdt'') = map of_char ''BTCUSDT''"
    by (simp add: ustr_upper_def ucd_fragment_def)
  have l1: "list_all (uc_isalpha ?U) (map of_char ''btcUsdt'')"
    by (simp add: ucd_fragment_def)
  have n2: "\<exists>c \<in> set (map of_char ''btc1''). \<not> uc_isalpha ?U c"
    by (simp add: ucd_fragment_def)
  have u3: "ustr_upper ?U (ustr_strip ?U [0x1F0]) = [0x4A, 0x30C]"
    by (simp add: ustr_upper_def ustr_strip_def ucd_fragment_def)
  have n3: "\<not> uc_isalpha ?U 0x30C" by (simp add: ucd_fragment_def)
  from validate_symbol_contract [of ?U "map of_char '' btcUsdt ''"] ascii_ucd_fragment a1 s1 u1 l1
  have 1: "validate_symbol_unicode ?U (map of_char '' btcUsdt '') = Inr (map of_char ''BTCUSDT'')"
    by simp
  from validate_symbol_contract [of ?U "map of_char ''btc1''"] ascii_ucd_fragment a2 s2 n2
  have 2: "\<exists>m. validate_symbol_unicode ?U (map of_char ''btc1'') = Inl (ValueError m)"
    by simp
  from validate_symbol_contract [of ?U "[0x1F0]"] u3 n3
  have 3: "\<exists>m. validate_symbol_unicode ?U [0x1F0] = Inl (ValueError m)"
    by simp
  from 1 2 3 show ?thesis by (intro conjI)
qed

text \<open>
  Beyond ASCII, upper-casing can make or unmake a letter. U+01F0 is a letter and no
  blank, so the trimmed text is not empty and consists of letters only; its upper case
  is U+004A U+030C, whose second code point is a mark, and the symbol is refused. U+0345
  is not a letter, its upper case U+0399 is one, and the symbol is accepted. Only the
  table entries for these code points enter.
\<close>

theorem validate_symbol_counterexample:
  "ustr_strip ucd_fragment [0x1F0] = [0x1F0]
 \<and> list_all (uc_isalpha ucd_fragment) [0x1F0]
 \<and> validate_symbol_unicode ucd_fragment [0x1F0] = Inl (ValueError (Symbol_invalid [0x4A, 0x30C]))
 \<and> ustr_strip ucd_fragment [0x345] = [0x345]
 \<and> \<not> uc_isalpha ucd_fragment 0x345
 \<and> validate_symbol_unicode ucd_fragment [0x345] = Inr [0x399]"
proof -
  have 1: "validate_symbol_unicode ucd_fragment [0x1F0]
             = Inl (ValueError (Symbol_invalid [0x4A, 0x30C]))"
    by (rule caron_rejected) (simp_all add: ucd_fragment_def)
  have 2: "validate_symbol_unicode ucd_fragment [0x345] = Inr [0x399]"
    by (rule ypogegrammeni_accepted) (simp_all add: ucd_fragment_def)
  show ?thesis
    using 1 2 by (simp add: ustr_strip_def ucd_fragment_def)
qed



text \<open>
  C5. The contract is broken at one input. For LIMIT and STOP_MARKET the price text
  \<open>NaN\<close> is accepted by \<open>Decimal\<close>; the comparison \<open>p <= 0\<close>, which stands outside
  the \<open>try\<close> block, then raises \<open>decimal.InvalidOperation\<close>. The call neither returns a
  value nor fails with a \<open>ValueError\<close>, the one error that the validators document and
  that their callers catch.
\<close>

theorem validate_price_nan_invalid_operation:
  "Decimal_of_str ''NaN'' = Some (NaN False False 0)
 \<and> validate_price (Some ''NaN'') ''LIMIT'' = Inl InvalidOperation
 \<and> validate_price (Some ''NaN'') ''STOP_MARKET'' = Inl InvalidOperation
 \<and> (\<forall>m. validate_price (Some ''NaN'') ''LIMIT'' \<noteq> Inl (ValueError m))
 \<and> (\<forall>v. validate_price (Some ''NaN'') ''LIMIT'' \<noteq> Inr v)"
  by (simp add: validate_price_def Decimal_of_str_NaN decimal_le_zero_def)

text \<open>
  On every other input \<open>validate_price\<close> keeps the contract. For MARKET the price is
  ignored and the result is \<open>None\<close>. For LIMIT and STOP_MARKET a missing price, a text
  that \<open>Decimal\<close> rejects and a value \<open>\<le> 0\<close> each raise a \<open>ValueError\<close>; a value for
  which the comparison \<open>p <= 0\<close> is false is returned as the very decimal that was parsed
  (for a finite decimal the comparison is the one of the number it denotes). \<open>0\<close> is
  refused, and \<open>10.5\<close> gives coefficient 105 with exponent -1, that is 21/2 exactly.
\<close>

theorem validate_price_contract:
  "validate_price price ''MARKET'' = Inr None
 \<and> (order_type = ''LIMIT'' \<or> order_type = ''STOP_MARKET'' \<longrightarrow>
      (\<exists>m. validate_price None order_type = Inl (ValueError m))
    \<and> (Decimal_of_str txt = None \<longrightarrow>
         (\<exists>m. validate_price (Some txt) order_type = Inl (ValueError m)))
    \<and> (Decimal_of_str txt = Some p \<and> (decimal_le_zero p :: string verror + bool) = Inr True \<longrightarrow>
         (\<exists>m. validate_price (Some txt) order_type = Inl (ValueError m)))
    \<and> (Decimal_of_str txt = Some p \<and> (decimal_le_zero p :: string verror + bool) = Inr False \<longrightarrow>
         validate_price (Some txt) order_type = Inr (Some p))
    \<and> (decimal_value p = Some v \<longrightarrow> (decimal_le_zero p :: string verror + bool) = Inr (v \<le> 0))
    \<and> validate_price (Some ''0'') order_type = Inl (ValueError
           (if order_type = ''LIMIT'' then Price_not_positive (Finite False 0 0)
            else Stop_price_not_positive (Finite False 0 0)))
    \<and> validate_price (Some ''10.5'') order_type = Inr (Some (Finite False 105 (- 1)))
    \<and> decimal_value (Finite False 105 (- 1)) = Some (21 / 2))"
proof -
  have z: "Decimal_of_str ''0'' = Some (Finite False 0 0)" by code_simp
  have v: "decimal_value p = Some v \<longrightarrow> (decimal_le_zero p :: string verror + bool) = Inr (v \<le> 0)"
    by (cases p) (simp_all add: decimal_le_zero_value, simp_all add: decimal_value_def)
  have e: "decimal_value (Finite False 105 (- 1)) = Some (21 / 2)"
    by (simp add: decimal_value_def)
  show ?thesis
    using v e
    by (auto simp: validate_price_def Decimal_of_str_10_5 z decimal_le_zero_def)
qed

theorem validate_price_contract_witness:
  "validate_price (Some ''2.50'') ''STOP_MARKET'' = Inr (Some (Finite False 250 (- 2)))
 \<and> (\<exists>m. validate_price (Some ''-1'') ''LIMIT'' = Inl (ValueError m))
 \<and> (\<exists>m. validate_price (Some ''abc'') ''LIMIT'' = Inl (ValueError m))
 \<and> (\<exists>m. validate_price None ''LIMIT'' = Inl (ValueError m))"
proof -
  have p1: "Decimal_of_str ''2.50'' = Some (Finite False 250 (- 2))" by code_simp
  have p2: "Decimal_of_str ''-1'' = Some (Finite True 1 0)" by code_simp
  have p3: "Decimal_of_str ''abc'' = None" by code_simp
  have l1: "(decimal_le_zero (Finite False 250 (- 2)) :: string verror + bool) = Inr False"
    by (simp add: decimal_le_zero_def)
  have l2: "(decimal_le_zero (Finite True 1 0) :: string verror + bool) = Inr True"
    by (simp add: decimal_le_zero_def)
  from validate_price_contract
         [of None "''STOP_MARKET''" "''2.50''" "Finite False 250 (- 2)" 0] p1 l1
  have 1: "validate_price (Some ''2.50'') ''STOP_MARKET'' = Inr (Some (Finite False 250 (- 2)))"
    by simp
  from validate_price_contract [of None "''LIMIT''" "''-1''" "Finite True 1 0" 0] p2 l2
  have 2: "\<exists>m. validate_price (Some ''-1'') ''LIMIT'' = Inl (ValueError m)"
    by simp
  from validate_price_contract [of None "''LIMIT''" "''abc''" "Finite True 1 0" 0] p3
  have 3: "(\<exists>m. validate_price (Some ''abc'') ''LIMIT'' = Inl (ValueError m))
     \<and> (\<exists>m. validate_price None ''LIMIT'' = Inl (ValueError m))"
    by simp
  from 1 2 3 show ?thesis by simp
qed

text \<open>
  C10. Non-finite decimals pass the parse. \<open>Infinity\<close> is accepted by \<open>validate_quantity\<close>
  and, for LIMIT and STOP_MARKET, by \<open>validate_price\<close>, and the infinite decimal is
  returned. \<open>NaN\<close> parses, and the comparison with 0 then raises
  \<open>decimal.InvalidOperation\<close>, which is not a \<open>ValueError\<close>.
\<close>

theorem validators_admit_non_finite:
  "validate_quantity ''Infinity'' = Inr (Infinity False)
 \<and> validate_price (Some ''Infinity'') ''LIMIT'' = Inr (Some (Infinity False))
 \<and> validate_price (Some ''Infinity'') ''STOP_MARKET'' = Inr (Some (Infinity False))
 \<and> Decimal_of_str ''NaN'' = Some (NaN False False 0)
 \<and> validate_quantity ''NaN'' = Inl InvalidOperation
 \<and> validate_price (Some ''NaN'') ''LIMIT'' = Inl InvalidOperation
 \<and> validate_price (Some ''NaN'') ''STOP_MARKET'' = Inl InvalidOperation
 \<and> (\<forall>m. ValueError m \<noteq> InvalidOperation)"
  by (simp add: validate_quantity_def validate_price_def Decimal_of_str_NaN
      Decimal_of_str_Infinity decimal_le_zero_def)

section \<open>Properties of the request executor\<close>

lemma attempts_frame:
  "heap (snd (attempts E c method url a as lst w)) = heap w
 \<and> n_reads (snd (attempts E c method url a as lst w)) = n_reads w"
proof (induction as arbitrary: lst w)
  case Nil
  show ?case by simp
next
  case (Cons attempt rest)
  show ?case
    by (simp add: Let_def Cons.IH sleep_def split: outcome.splits json.splits option.splits)
qed

lemma deref_frame [simp]:
  "deref (w\<lparr>n_sent := n, trace := t\<rparr>) a = deref w a"
  "deref (sleep s w) a = deref w a"
  by (simp_all add: deref_def sleep_def)

lemma backoff_events_Cons:
  "backoff_events rq m (i # as) =
     Send rq # (if i < m then [Sleep (2 ^ nat (i - 1))] else []) @ backoff_events rq m as"
  by (simp add: backoff_events_def)

lemma attempts_all_fail:
  assumes "\<forall>i<length as. \<exists>exc. transport E (n_sent w + i) (mk_request c method url (deref w a)) = Raises exc
              \<and> retryable exc"
  shows "\<exists>exc. attempts E c method url a as lst w =
           (Inl (ConnectionError url (max_retries c) exc),
            w\<lparr>n_sent := n_sent w + length as,
              trace := trace w @ backoff_events (mk_request c method url (deref w a)) (max_retries c) as\<rparr>)
         \<and> (if as = [] then exc = lst
            else transport E (n_sent w + length as - 1) (mk_request c method url (deref w a)) = Raises exc)"
  using assms
proof (induction as arbitrary: lst w)
  case Nil
  show ?case by (simp add: backoff_events_def)
next
  case (Cons attempt rest)
  let ?rq = "mk_request c method url (deref w a)"
  from Cons.prems obtain exc where
    h: "transport E (n_sent w) ?rq = Raises exc" "retryable exc"
    by fastforce
  let ?w1 = "w\<lparr>n_sent := n_sent w + 1, trace := trace w @ [Send ?rq]\<rparr>"
  let ?w2 = "if attempt < max_retries c then sleep (2 ^ nat (attempt - 1)) ?w1 else ?w1"
  have d: "deref ?w2 a = deref w a" by simp
  have n: "n_sent ?w2 = n_sent w + 1" by (simp add: sleep_def)
  have p: "\<forall>i<length rest. \<exists>exc. transport E (n_sent ?w2 + i) (mk_request c method url (deref ?w2 a)) = Raises exc
              \<and> retryable exc"
  proof (intro allI impI)
    fix i assume "i < length rest"
    then have "Suc i < length (attempt # rest)" by simp
    with Cons.prems have "\<exists>exc. transport E (n_sent w + Suc i) ?rq = Raises exc \<and> retryable exc"
      by blast
    then show "\<exists>exc. transport E (n_sent ?w2 + i) (mk_request c method url (deref ?w2 a)) = Raises exc
              \<and> retryable exc"
      by (simp only: d n) simp
  qed
  from Cons.IH [OF p, of exc] obtain exc' where
    ih: "attempts E c method url a rest exc ?w2 =
           (Inl (ConnectionError url (max_retries c) exc'),
            ?w2\<lparr>n_sent := n_sent ?w2 + length rest,
              trace := trace ?w2 @ backoff_events (mk_request c method url (deref ?w2 a)) (max_retries c) rest\<rparr>)"
     and lastf: "if rest = [] then exc' = exc
            else transport E (n_sent ?w2 + length rest - 1) (mk_request c method url (deref ?w2 a)) = Raises exc'"
    by blast
  have step: "attempts E c method url a (attempt # rest) lst w = attempts E c method url a rest exc ?w2"
    using h by (simp add: Let_def)
  have w_eq: "?w2\<lparr>n_sent := n_sent ?w2 + length rest,
              trace := trace ?w2 @ backoff_events (mk_request c method url (deref ?w2 a)) (max_retries c) rest\<rparr>
        = w\<lparr>n_sent := n_sent w + length (attempt # rest),
              trace := trace w @ backoff_events ?rq (max_retries c) (attempt # rest)\<rparr>"
    by (simp add: backoff_events_Cons sleep_def deref_def)
  have lst': "transport E (n_sent w + length (attempt # rest) - 1) ?rq = Raises exc'"
  proof (cases "rest = []")
    case True
    with lastf h show ?thesis by simp
  next
    case False
    with lastf have "transport E (n_sent ?w2 + length rest - 1) (mk_request c method url (deref ?w2 a)) = Raises exc'"
      by simp
    then show ?thesis by (simp only: d n) simp
  qed
  show ?case
    using step ih w_eq lst' by simp
qed


lemma attempts_api_error:
  assumes "\<forall>i<length pre. \<exists>exc. transport E (n_sent w + i) (mk_request c method url (deref w a)) = Raises exc
              \<and> retryable exc"
    and "transport E (n_sent w + length pre) (mk_request c method url (deref w a)) = Responds status (JObj d)"
    and "map_of d ''code'' = Some code"
    and "json_ne_int code 200"
  shows "attempts E c method url a (pre @ x # post) lst w =
           (Inl (BinanceAPIError code (json_get d ''msg'' (JStr ''Unknown error'')) status),
            w\<lparr>n_sent := n_sent w + length pre + 1,
              trace := trace w @ backoff_events (mk_request c method url (deref w a)) (max_retries c) pre
                        @ [Send (mk_request c method url (deref w a))]\<rparr>)"
  using assms(1,2)
proof (induction pre arbitrary: lst w)
  case Nil
  then show ?case
    using assms(3,4) by (simp add: Let_def json_get_def backoff_events_def)
next
  case (Cons attempt rest)
  let ?rq = "mk_request c method url (deref w a)"
  from Cons.prems(1) obtain exc where
    h: "transport E (n_sent w) ?rq = Raises exc" "retryable exc"
    by fastforce
  let ?w1 = "w\<lparr>n_sent := n_sent w + 1, trace := trace w @ [Send ?rq]\<rparr>"
  let ?w2 = "if attempt < max_retries c then sleep (2 ^ nat (attempt - 1)) ?w1 else ?w1"
  have d: "deref ?w2 a = deref w a" by simp
  have n: "n_sent ?w2 = n_sent w + 1" by (simp add: sleep_def)
  have p1: "\<forall>i<length rest. \<exists>exc. transport E (n_sent ?w2 + i) (mk_request c method url (deref ?w2 a)) = Raises exc
              \<and> retryable exc"
  proof (intro allI impI)
    fix i assume "i < length rest"
    then have "Suc i < length (attempt # rest)" by simp
    with Cons.prems(1) have "\<exists>exc. transport E (n_sent w + Suc i) ?rq = Raises exc \<and> retryable exc"
      by blast
    then show "\<exists>exc. transport E (n_sent ?w2 + i) (mk_request c method url (deref ?w2 a)) = Raises exc
              \<and> retryable exc"
      by (simp only: d n) simp
  qed
  have p2: "transport E (n_sent ?w2 + length rest) (mk_request c method url (deref ?w2 a)) = Responds status (JObj d)"
    using Cons.prems(2) by (simp only: d n) simp
  have step: "attempts E c method url a ((attempt # rest) @ x # post) lst w
                = attempts E c method url a (rest @ x # post) exc ?w2"
    using h by (simp add: Let_def)
  have w_eq: "?w2\<lparr>n_sent := n_sent ?w2 + length rest + 1,
              trace := trace ?w2 @ backoff_events (mk_request c method url (deref ?w2 a)) (max_retries c) rest
                        @ [Send (mk_request c method url (deref ?w2 a))]\<rparr>
        = w\<lparr>n_sent := n_sent w + length (attempt # rest) + 1,
              trace := trace w @ backoff_events ?rq (max_retries c) (attempt # rest) @ [Send ?rq]\<rparr>"
    by (simp add: backoff_events_Cons sleep_def deref_def)
  show ?case
    using step Cons.IH [OF p1 p2, of exc] w_eq by simp
qed

lemma attempts_trace:
  "\<exists>evs. trace (snd (attempts E c method url a as lst w)) = trace w @ evs
       \<and> (\<forall>e \<in> set evs. e = Send (mk_request c method url (deref w a)) \<or> (\<exists>s. e = Sleep s))"
proof (induction as arbitrary: lst w)
  case Nil
  show ?case by simp
next
  case (Cons attempt rest)
  let ?rq = "mk_request c method url (deref w a)"
  let ?w1 = "w\<lparr>n_sent := n_sent w + 1, trace := trace w @ [Send ?rq]\<rparr>"
  let ?w2 = "if attempt < max_retries c then sleep (2 ^ nat (attempt - 1)) ?w1 else ?w1"
  have d: "deref ?w2 a = deref w a" by simp
  have t: "\<exists>evs. trace ?w2 = trace w @ evs
       \<and> (\<forall>e \<in> set evs. e = Send ?rq \<or> (\<exists>s. e = Sleep s))"
    by (simp add: sleep_def)
  show ?case
  proof (cases "transport E (n_sent w) ?rq")
    case (Responds st data)
    then show ?thesis
      by (simp add: Let_def split: json.splits option.splits)
  next
    case (Raises exc)
    show ?thesis
    proof (cases "retryable exc")
      case False
      with Raises show ?thesis by (simp add: Let_def)
    next
      case True
      with Raises have step: "attempts E c method url a (attempt # rest) lst w
                = attempts E c method url a rest exc ?w2"
        by (simp add: Let_def)
      from Cons.IH [of exc ?w2] obtain evs where
        e: "trace (snd (attempts E c method url a rest exc ?w2)) = trace ?w2 @ evs"
           "\<forall>e \<in> set evs. e = Send (mk_request c method url (deref ?w2 a)) \<or> (\<exists>s. e = Sleep s)"
        by blast
      from t obtain evs0 where
        e0: "trace ?w2 = trace w @ evs0" "\<forall>e \<in> set evs0. e = Send ?rq \<or> (\<exists>s. e = Sleep s)"
        by blast
      have "trace (snd (attempts E c method url a (attempt # rest) lst w)) = trace w @ (evs0 @ evs)"
        using step e(1) e0(1) by simp
      moreover have "\<forall>e \<in> set (evs0 @ evs). e = Send ?rq \<or> (\<exists>s. e = Sleep s)"
        using e(2) e0(2) d by auto
      ultimately show ?thesis by blast
    qed
  qed
qed

lemma or_empty_dict_frame:
  "or_empty_dict params w = (a, w1) \<Longrightarrow>
     n_sent w1 = n_sent w \<and> trace w1 = trace w \<and> n_reads w1 = n_reads w"
  by (auto simp: or_empty_dict_def alloc_def split: option.splits if_splits)

lemma build_signed_params_frame:
  "build_signed_params E c a w = (a', w') \<Longrightarrow>
     a' = a \<and> n_sent w' = n_sent w \<and> trace w' = trace w @ [Clock_read]
     \<and> n_reads w' = n_reads w + 1"
  by (auto simp: build_signed_params_def timestamp_def setitem_def Let_def)

lemma request_prepared:
  "\<exists>a w2. request E c method endpoint params signed w =
            attempts E c method (base_url c @ endpoint) a [1..max_retries c]
              (RuntimeError ''No attempts made.'') w2
        \<and> n_sent w2 = n_sent w
        \<and> trace w2 = trace w @ (if signed then [Clock_read] else [])"
proof -
  obtain a w1 where p1: "or_empty_dict params w = (a, w1)"
    by (cases "or_empty_dict params w")
  obtain a' w2 where p2: "(if signed then build_signed_params E c a w1 else (a, w1)) = (a', w2)"
    by (cases "if signed then build_signed_params E c a w1 else (a, w1)")
  have f: "n_sent w2 = n_sent w \<and> trace w2 = trace w @ (if signed then [Clock_read] else [])"
    using or_empty_dict_frame [OF p1] p2 build_signed_params_frame [of E c a w1 a' w2]
    by (cases signed) auto
  have "request E c method endpoint params signed w =
            attempts E c method (base_url c @ endpoint) a' [1..max_retries c]
              (RuntimeError ''No attempts made.'') w2"
    using p1 p2 by (simp add: request_def py_range_def)
  with f show ?thesis by blast
qed

lemma backoff_events_retry:
  "\<forall>i \<in> set as. i < m \<Longrightarrow> backoff_events rq m as = retry_events rq as"
  by (induction as) (simp_all add: backoff_events_def retry_events_def)

lemma backoff_events_snoc:
  "backoff_events rq m (as @ [m]) = backoff_events rq m as @ [Send rq]"
  by (simp add: backoff_events_def)

lemma sends_retry_events:
  "sends (retry_events rq as @ [Send rq]) = replicate (Suc (length as)) rq"
  by (induction as) (simp_all add: sends_def retry_events_def)

lemma sleeps_retry_events:
  "sleeps (retry_events rq as @ [Send rq]) = map (\<lambda>i. 2 ^ nat (i - 1)) as"
  by (induction as) (simp_all add: sleeps_def retry_events_def)

lemma sends_Clock_read:
  "sends ((if signed then [Clock_read] else []) @ evs) = sends evs"
  "sleeps ((if signed then [Clock_read] else []) @ evs) = sleeps evs"
  by (simp_all add: sends_def sleeps_def)

text \<open>
  C2, as amended. When at least one try is allowed (\<open>max_retries \<ge> 1\<close>) and every attempt
  ends in a timeout, a connection error or another request exception, the executor makes
  exactly \<open>max_retries\<close> attempts with the same request, sleeps \<open>2 ^ (attempt - 1)\<close>
  seconds after each attempt but the last, and then raises \<open>ConnectionError\<close> whose cause
  is the exception of the last attempt; nothing follows the last attempt in the trace.
\<close>

theorem retry_exhaustion:
  assumes "1 \<le> max_retries c"
    and "\<forall>i<nat (max_retries c). \<forall>rq. \<exists>exc. transport E (n_sent w + i) rq = Raises exc \<and> retryable exc"
  shows "\<exists>rq exc w'.
           request E c method endpoint params signed w =
             (Inl (ConnectionError (base_url c @ endpoint) (max_retries c) exc), w')
         \<and> transport E (n_sent w + nat (max_retries c) - 1) rq = Raises exc
         \<and> retryable exc
         \<and> trace w' = trace w @ (if signed then [Clock_read] else [])
                         @ retry_events rq [1..max_retries c - 1] @ [Send rq]
         \<and> sends (drop (length (trace w)) (trace w')) = replicate (nat (max_retries c)) rq
         \<and> sleeps (drop (length (trace w)) (trace w'))
             = map (\<lambda>attempt. 2 ^ nat (attempt - 1)) [1..max_retries c - 1]"
proof -
  let ?m = "max_retries c"
  let ?url = "base_url c @ endpoint"
  from request_prepared [of E c "method" "endpoint" params signed w] obtain a w2 where
    r: "request E c method endpoint params signed w =
          attempts E c method ?url a [1..?m] (RuntimeError ''No attempts made.'') w2"
    and n: "n_sent w2 = n_sent w"
    and t: "trace w2 = trace w @ (if signed then [Clock_read] else [])"
    by blast
  let ?rq = "mk_request c method ?url (deref w2 a)"
  have len: "length [1..?m] = nat ?m" by simp
  have f: "\<forall>i<length [1..?m]. \<exists>exc. transport E (n_sent w2 + i) ?rq = Raises exc \<and> retryable exc"
    using assms(2) n by simp
  from attempts_all_fail [OF f, of "RuntimeError ''No attempts made.''"] obtain exc where
    a: "attempts E c method ?url a [1..?m] (RuntimeError ''No attempts made.'') w2 =
           (Inl (ConnectionError ?url ?m exc),
            w2\<lparr>n_sent := n_sent w2 + length [1..?m],
               trace := trace w2 @ backoff_events ?rq ?m [1..?m]\<rparr>)"
    and l: "if [1..?m] = [] then exc = RuntimeError ''No attempts made.''
            else transport E (n_sent w2 + length [1..?m] - 1) ?rq = Raises exc"
    by blast
  from assms(1) have ne: "[1..?m] \<noteq> []" by simp
  from l ne n have l': "transport E (n_sent w + nat ?m - 1) ?rq = Raises exc"
    by simp
  from assms(2) assms(1) l' have rt: "retryable exc"
  proof -
    have "nat ?m - 1 < nat ?m" using assms(1) by simp
    with assms(2) obtain exc' where "transport E (n_sent w + (nat ?m - 1)) ?rq = Raises exc'" "retryable exc'"
      by blast
    moreover have "n_sent w + (nat ?m - 1) = n_sent w + nat ?m - 1" using assms(1) by simp
    ultimately show ?thesis using l' by simp
  qed
  have ev: "backoff_events ?rq ?m [1..?m] = retry_events ?rq [1..?m - 1] @ [Send ?rq]"
  proof -
    have "[1..?m] = [1..?m - 1] @ [?m]" using assms(1) by (simp add: upto_rec2)
    then have "backoff_events ?rq ?m [1..?m] = backoff_events ?rq ?m [1..?m - 1] @ [Send ?rq]"
      by (simp add: backoff_events_snoc)
    moreover have "backoff_events ?rq ?m [1..?m - 1] = retry_events ?rq [1..?m - 1]"
      by (rule backoff_events_retry) simp
    ultimately show ?thesis by simp
  qed
  let ?w' = "w2\<lparr>n_sent := n_sent w2 + length [1..?m],
               trace := trace w2 @ backoff_events ?rq ?m [1..?m]\<rparr>"
  have tr: "trace ?w' = trace w @ (if signed then [Clock_read] else [])
                         @ retry_events ?rq [1..?m - 1] @ [Send ?rq]"
    using t ev by simp
  have ln: "Suc (length [1..?m - 1]) = nat ?m" using assms(1) by simp
  have sd: "sends (drop (length (trace w)) (trace ?w')) = replicate (nat ?m) ?rq"
    by (simp only: tr append_eq_conv_conj drop_append) (simp add: sends_Clock_read sends_retry_events ln del: length_upto)
  have sl: "sleeps (drop (length (trace w)) (trace ?w'))
             = map (\<lambda>attempt. 2 ^ nat (attempt - 1)) [1..?m - 1]"
    by (simp only: tr append_eq_conv_conj drop_append) (simp add: sends_Clock_read sleeps_retry_events)
  have res: "request E c method endpoint params signed w =
               (Inl (ConnectionError ?url ?m exc), ?w')"
    using r a by simp
  show ?thesis
    using res l' rt tr sd sl by (intro exI [of _ ?rq] exI [of _ exc] exI [of _ ?w'] conjI)
qed

theorem retry_exhaustion_witness:
  "fst (request down_env sample_client ''GET'' ''/fapi/v1/ping'' None False empty_world)
     = Inl (ConnectionError ''https://testnet/fapi/v1/ping'' 3 (ReqConnectionError ''refused''))
 \<and> length (sends (trace (snd (request down_env sample_client ''GET'' ''/fapi/v1/ping'' None False
       empty_world)))) = 3
 \<and> sleeps (trace (snd (request down_env sample_client ''GET'' ''/fapi/v1/ping'' None False
       empty_world))) = [1, 2]"
proof -
  have m: "max_retries sample_client = 3" by (simp add: sample_client_def)
  have h1: "1 \<le> max_retries sample_client" by (simp add: m)
  have h2: "\<forall>i<nat (max_retries sample_client). \<forall>rq. \<exists>exc.
              transport down_env (n_sent empty_world + i) rq = Raises exc \<and> retryable exc"
    by (simp add: down_env_def retryable_def)
  from retry_exhaustion [OF h1 h2, of "''GET''" "''/fapi/v1/ping''" None False]
  obtain rq exc w' where
    r: "request down_env sample_client ''GET'' ''/fapi/v1/ping'' None False empty_world =
             (Inl (ConnectionError (base_url sample_client @ ''/fapi/v1/ping'')
                (max_retries sample_client) exc), w')"
    and e: "transport down_env (n_sent empty_world + nat (max_retries sample_client) - 1) rq = Raises exc"
    and sd: "sends (drop (length (trace empty_world)) (trace w'))
               = replicate (nat (max_retries sample_client)) rq"
    and sl: "sleeps (drop (length (trace empty_world)) (trace w'))
             = map (\<lambda>attempt. 2 ^ nat (attempt - 1)) [1..max_retries sample_client - 1]"
    by blast
  from e have exc: "exc = ReqConnectionError ''refused''"
    by (simp add: down_env_def)
  have u: "[1..(2::int)] = [1, 2]" by code_simp
  from r exc sd sl u show ?thesis
    by (simp add: m empty_world_def sample_client_def)
qed

text \<open>
  With \<open>max_retries = 0\<close> the loop body never runs: no attempt is made, and the
  \<open>ConnectionError\<close> wraps the placeholder \<open>RuntimeError("No attempts made.")\<close>, which is no
  transport exception. With \<open>max_retries = -1\<close> the number of attempts is 0, not -1.
\<close>

theorem retry_exhaustion_counterexample:
  "request down_env (sample_client\<lparr>max_retries := 0\<rparr>) ''GET'' ''/fapi/v1/ping'' None False
     empty_world
   = (Inl (ConnectionError ''https://testnet/fapi/v1/ping'' 0 (RuntimeError ''No attempts made.'')),
      empty_world\<lparr>heap := [[]]\<rparr>)
 \<and> \<not> retryable (RuntimeError ''No attempts made.'')
 \<and> n_sent (snd (request down_env (sample_client\<lparr>max_retries := - 1\<rparr>) ''GET''
       ''/fapi/v1/ping'' None False empty_world)) = 0"
  by (simp add: request_def or_empty_dict_def alloc_def py_range_def sample_client_def
      empty_world_def retryable_def)


text \<open>
  C1. When the \<open>k\<close>-th attempt of a call (the attempts before it having failed in the
  transport) receives a response whose decoded body is a mapping with a \<open>code\<close> entry
  that differs from 200, the call raises \<open>BinanceAPIError\<close> with that code, the \<open>msg\<close>
  entry (or the default text) and the HTTP status. That attempt is the last event of the
  call: \<open>k\<close> network calls and \<open>k - 1\<close> sleeps in all, so a rejection of the first
  attempt costs exactly one network call and no sleep.
\<close>

theorem api_error_not_retried:
  assumes "1 \<le> k" and "k \<le> max_retries c"
    and "\<forall>i<nat (k - 1). \<forall>rq. \<exists>exc. transport E (n_sent w + i) rq = Raises exc \<and> retryable exc"
    and "\<forall>rq. transport E (n_sent w + nat (k - 1)) rq = Responds status (JObj d)"
    and "map_of d ''code'' = Some code"
    and "json_ne_int code 200"
  shows "\<exists>rq w'.
           request E c method endpoint params signed w =
             (Inl (BinanceAPIError code (json_get d ''msg'' (JStr ''Unknown error'')) status), w')
         \<and> trace w' = trace w @ (if signed then [Clock_read] else [])
                         @ retry_events rq [1..k - 1] @ [Send rq]
         \<and> length (sends (drop (length (trace w)) (trace w'))) = nat k
         \<and> length (sleeps (drop (length (trace w)) (trace w'))) = nat (k - 1)
         \<and> n_sent w' = n_sent w + nat k"
proof -
  let ?m = "max_retries c"
  let ?url = "base_url c @ endpoint"
  from request_prepared [of E c "method" "endpoint" params signed w] obtain a w2 where
    r: "request E c method endpoint params signed w =
          attempts E c method ?url a [1..?m] (RuntimeError ''No attempts made.'') w2"
    and n: "n_sent w2 = n_sent w"
    and t: "trace w2 = trace w @ (if signed then [Clock_read] else [])"
    by blast
  let ?rq = "mk_request c method ?url (deref w2 a)"
  have split: "[1..?m] = [1..k - 1] @ k # [k + 1..?m]"
    using assms(1,2) by (rule upto_split3)
  have len: "length [1..k - 1] = nat (k - 1)" by simp
  have f: "\<forall>i<length [1..k - 1]. \<exists>exc. transport E (n_sent w2 + i) ?rq = Raises exc \<and> retryable exc"
    using assms(3) n by simp
  have g: "transport E (n_sent w2 + length [1..k - 1]) ?rq = Responds status (JObj d)"
    using assms(4) n by simp
  let ?w' = "w2\<lparr>n_sent := n_sent w2 + length [1..k - 1] + 1,
              trace := trace w2 @ backoff_events ?rq ?m [1..k - 1] @ [Send ?rq]\<rparr>"
  have a: "attempts E c method ?url a ([1..k - 1] @ k # [k + 1..?m])
             (RuntimeError ''No attempts made.'') w2 =
           (Inl (BinanceAPIError code (json_get d ''msg'' (JStr ''Unknown error'')) status), ?w')"
    by (rule attempts_api_error [OF f g assms(5) assms(6)])
  have ev: "backoff_events ?rq ?m [1..k - 1] = retry_events ?rq [1..k - 1]"
    by (rule backoff_events_retry) (use assms(2) in simp)
  have res: "request E c method endpoint params signed w =
               (Inl (BinanceAPIError code (json_get d ''msg'' (JStr ''Unknown error'')) status), ?w')"
    using r a split by simp
  have tr: "trace ?w' = trace w @ (if signed then [Clock_read] else [])
                         @ retry_events ?rq [1..k - 1] @ [Send ?rq]"
    using t ev by simp
  have ln: "Suc (nat (k - 1)) = nat k" using assms(1) by simp
  have sd: "length (sends (drop (length (trace w)) (trace ?w'))) = nat k"
    by (simp only: tr append_eq_conv_conj drop_append)
       (simp add: sends_Clock_read sends_retry_events ln)
  have sl: "length (sleeps (drop (length (trace w)) (trace ?w'))) = nat (k - 1)"
    by (simp only: tr append_eq_conv_conj drop_append)
       (simp add: sends_Clock_read sleeps_retry_events)
  have ns: "n_sent ?w' = n_sent w + nat k"
    using n ln by simp
  show ?thesis
    using res tr sd sl ns by (intro exI [of _ ?rq] exI [of _ ?w'] conjI)
qed

theorem api_error_not_retried_witness:
  "fst (request sample_env sample_client ''GET'' ''/fapi/v1/exchangeInfo'' None False empty_world)
     = Inl (BinanceAPIError (JInt (- 1121)) (JStr ''Invalid symbol.'') 400)
 \<and> length (sends (trace (snd (request sample_env sample_client ''GET''
       ''/fapi/v1/exchangeInfo'' None False empty_world)))) = 3
 \<and> fst (request sample_env sample_client ''GET'' ''/fapi/v1/exchangeInfo'' None False
       (empty_world\<lparr>n_sent := 2\<rparr>))
     = Inl (BinanceAPIError (JInt (- 1121)) (JStr ''Invalid symbol.'') 400)
 \<and> length (sends (trace (snd (request sample_env sample_client ''GET''
       ''/fapi/v1/exchangeInfo'' None False (empty_world\<lparr>n_sent := 2\<rparr>))))) = 1
 \<and> sleeps (trace (snd (request sample_env sample_client ''GET''
       ''/fapi/v1/exchangeInfo'' None False (empty_world\<lparr>n_sent := 2\<rparr>)))) = []"
proof -
  let ?d = "[(''code'', JInt (- 1121)), (''msg'', JStr ''Invalid symbol.'')]"
  let ?w = "empty_world\<lparr>n_sent := 2\<rparr>"
  have h2: "3 \<le> max_retries sample_client" "1 \<le> max_retries sample_client"
    by (simp_all add: sample_client_def)
  have h5: "map_of ?d ''code'' = Some (JInt (- 1121))" by simp
  have h6: "json_ne_int (JInt (- 1121)) 200" by (simp add: json_ne_int_def)
  have a3: "\<forall>i<nat (3 - 1). \<forall>rq. \<exists>exc. transport sample_env (n_sent empty_world + i) rq = Raises exc
              \<and> retryable exc"
    by (simp add: sample_env_def empty_world_def retryable_def)
  have a4: "\<forall>rq. transport sample_env (n_sent empty_world + nat (3 - 1)) rq = Responds 400 (JObj ?d)"
    by (simp add: sample_env_def empty_world_def)
  have b3: "\<forall>i<nat (1 - 1). \<forall>rq. \<exists>exc. transport sample_env (n_sent ?w + i) rq = Raises exc
              \<and> retryable exc"
    by simp
  have b4: "\<forall>rq. transport sample_env (n_sent ?w + nat (1 - 1)) rq = Responds 400 (JObj ?d)"
    by (simp add: sample_env_def)
  from api_error_not_retried [OF _ h2(1) a3 a4 h5 h6,
      of "''GET''" "''/fapi/v1/exchangeInfo''" None False]
  obtain rq w' where
    r: "request sample_env sample_client ''GET'' ''/fapi/v1/exchangeInfo'' None False empty_world =
          (Inl (BinanceAPIError (JInt (- 1121)) (json_get ?d ''msg'' (JStr ''Unknown error'')) 400), w')"
    and sd: "length (sends (drop (length (trace empty_world)) (trace w'))) = nat 3"
    by auto
  from api_error_not_retried [OF _ h2(2) b3 b4 h5 h6,
      of "''GET''" "''/fapi/v1/exchangeInfo''" None False]
  obtain rq1 w1 where
    r1: "request sample_env sample_client ''GET'' ''/fapi/v1/exchangeInfo'' None False ?w =
          (Inl (BinanceAPIError (JInt (- 1121)) (json_get ?d ''msg'' (JStr ''Unknown error'')) 400), w1)"
    and sd1: "length (sends (drop (length (trace ?w)) (trace w1))) = nat 1"
    and sl1: "length (sleeps (drop (length (trace ?w)) (trace w1))) = nat (1 - 1)"
    by auto
  from r sd r1 sd1 sl1 show ?thesis
    by (simp add: empty_world_def json_get_def)
qed

section \<open>Properties of signing and of the order request\<close>

lemma dict_get_set: "dict_get (dict_set d k v) k' = (if k' = k then Some v else dict_get d k')"
  by (induction d) (auto simp: dict_get_def)

lemma dict_keys_set_list:
  "dict_keys (dict_set d k v) =
     (if k \<in> set (dict_keys d) then dict_keys d else dict_keys d @ [k])"
  by (induction d k v rule: dict_set.induct) (auto simp: dict_keys_def)

lemma dict_keys_set: "set (dict_keys (dict_set d k v)) = insert k (set (dict_keys d))"
  by (auto simp: dict_keys_set_list)

lemma dict_set_fresh: "k \<notin> set (dict_keys d) \<Longrightarrow> dict_set d k v = d @ [(k, v)]"
  by (induction d) (auto simp: dict_keys_def)

lemma dict_without_fresh: "k \<notin> set (dict_keys d) \<Longrightarrow> dict_without d k = d"
  by (induction d) (auto simp: dict_keys_def dict_without_def)

lemma dict_without_set:
  "k \<noteq> k' \<Longrightarrow> dict_without (dict_set d k v) k' = dict_set (dict_without d k') k v"
  by (induction d) (auto simp: dict_without_def)

lemma dict_without_set_same: "dict_without (dict_set d k v) k = dict_without d k"
  by (induction d) (auto simp: dict_without_def)

lemma dict_without_commute:
  "dict_without (dict_without d k) k' = dict_without (dict_without d k') k"
  by (induction d) (auto simp: dict_without_def)

lemma build_signed_params_heap:
  assumes "a < length (heap w)"
  shows "build_signed_params E c a w =
           (a, w\<lparr>n_reads := n_reads w + 1, trace := trace w @ [Clock_read],
                heap := (heap w)[a := signed_params E c (clock_ms E (n_reads w)) (heap w ! a)]\<rparr>)"
  using assms
  by (simp add: build_signed_params_def timestamp_def setitem_def deref_def signed_params_def
      extended_params_def Let_def)

lemma hexdigest_length: "length (hexdigest bs) = 2 * length bs"
  by (induction bs) (simp_all add: hexdigest_def)




lemma str_of_int_1000: "str_of_int 1000 = ''1000''"
  by (simp add: str_of_int_def str_of_nat.simps [of 1000] str_of_nat.simps [of 100]
      str_of_nat.simps [of 10] str_of_nat.simps [of "Suc 0"] char_of_eq_iff
      del: str_of_nat.simps)

lemma str_of_int_5000: "str_of_int 5000 = ''5000''"
  by (simp add: str_of_int_def str_of_nat.simps [of 5000] str_of_nat.simps [of 500]
      str_of_nat.simps [of 50] str_of_nat.simps [of 5] char_of_eq_iff
      del: str_of_nat.simps)

lemma sign_sample_env: "sign sample_env c d = hexdigest (urlencode d)"
  by (simp add: sign_def sample_env_def encode_utf8_def)



text \<open>
  C4, as amended. For a mapping without a \<open>signature\<close> key, \<open>build_signed_params\<close> reads
  the clock once, stores that reading under \<open>timestamp\<close> and 5000 under \<open>recvWindow\<close>,
  and appends \<open>signature\<close> as the last entry; the signature is the one of the resulting
  mapping without its \<open>signature\<close> entry, which holds \<open>timestamp\<close>, \<open>recvWindow\<close> and
  the fields of the caller, unchanged and in their order. The same mapping is returned.
\<close>

theorem build_signed_params_contract:
  assumes "params < length (heap w)"
    and "''signature'' \<notin> set (dict_keys (deref w params))"
  shows "let d = deref w params;
             t = clock_ms E (n_reads w);
             d' = deref (snd (build_signed_params E c params w)) params;
             ext = dict_without d' ''signature''
         in fst (build_signed_params E c params w) = params
          \<and> n_reads (snd (build_signed_params E c params w)) = n_reads w + 1
          \<and> dict_get d' ''timestamp'' = Some (VInt t)
          \<and> dict_get d' ''recvWindow'' = Some (VInt 5000)
          \<and> d' = ext @ [(''signature'', VStr (sign E c ext))]
          \<and> ''signature'' \<notin> set (dict_keys ext)
          \<and> dict_get ext ''timestamp'' = Some (VInt t)
          \<and> dict_get ext ''recvWindow'' = Some (VInt 5000)
          \<and> set (dict_keys ext) = set (dict_keys d) \<union> {''timestamp'', ''recvWindow''}
          \<and> (\<forall>k. k \<noteq> ''timestamp'' \<and> k \<noteq> ''recvWindow'' \<and> k \<noteq> ''signature''
                 \<longrightarrow> dict_get d' k = dict_get d k)
          \<and> dict_without (dict_without ext ''timestamp'') ''recvWindow''
              = dict_without (dict_without d ''timestamp'') ''recvWindow''"
proof -
  let ?d = "deref w params"
  let ?t = "clock_ms E (n_reads w)"
  let ?ext = "extended_params ?t ?d"
  have b: "build_signed_params E c params w =
           (params, w\<lparr>n_reads := n_reads w + 1, trace := trace w @ [Clock_read],
                heap := (heap w)[params := signed_params E c ?t (heap w ! params)]\<rparr>)"
    by (rule build_signed_params_heap [OF assms(1)])
  have d': "deref (snd (build_signed_params E c params w)) params = signed_params E c ?t ?d"
    using assms(1) by (simp add: b deref_def)
  have nk: "''signature'' \<notin> set (dict_keys ?ext)"
    using assms(2) by (simp add: extended_params_def dict_keys_set)
  have sp: "signed_params E c ?t ?d = ?ext @ [(''signature'', VStr (sign E c ?ext))]"
    by (simp add: signed_params_def dict_set_fresh [OF nk])
  have wo: "dict_without (signed_params E c ?t ?d) ''signature'' = ?ext"
    by (simp add: signed_params_def dict_without_set_same dict_without_fresh [OF nk])
  have g1: "dict_get ?ext ''timestamp'' = Some (VInt ?t)"
    and g2: "dict_get ?ext ''recvWindow'' = Some (VInt 5000)"
    by (simp_all add: extended_params_def dict_get_set RECV_WINDOW_def)
  have g3: "dict_get (signed_params E c ?t ?d) ''timestamp'' = Some (VInt ?t)"
    and g4: "dict_get (signed_params E c ?t ?d) ''recvWindow'' = Some (VInt 5000)"
    using g1 g2 by (simp_all add: signed_params_def dict_get_set)
  have ks: "set (dict_keys ?ext) = set (dict_keys ?d) \<union> {''timestamp'', ''recvWindow''}"
    by (auto simp: extended_params_def dict_keys_set)
  have bus: "\<forall>k. k \<noteq> ''timestamp'' \<and> k \<noteq> ''recvWindow'' \<and> k \<noteq> ''signature''
                 \<longrightarrow> dict_get (signed_params E c ?t ?d) k = dict_get ?d k"
    by (simp add: signed_params_def extended_params_def dict_get_set)
  have ord: "dict_without (dict_without ?ext ''timestamp'') ''recvWindow''
              = dict_without (dict_without ?d ''timestamp'') ''recvWindow''"
    by (simp add: extended_params_def dict_without_set dict_without_set_same
        dict_without_commute [of _ "''recvWindow''" "''timestamp''"])
  show ?thesis
    unfolding Let_def d' wo
    using b sp nk g1 g2 g3 g4 ks bus ord by simp
qed

theorem build_signed_params_contract_witness:
  "let w = empty_world\<lparr>heap := [[(''symbol'', VStr ''BTCUSDT'')]]\<rparr>;
       d' = deref (snd (build_signed_params sample_env sample_client 0 w)) 0
   in dict_get d' ''timestamp'' = Some (VInt 1000)
    \<and> dict_get d' ''recvWindow'' = Some (VInt 5000)
    \<and> d' = dict_without d' ''signature''
             @ [(''signature'', VStr (sign sample_env sample_client (dict_without d' ''signature'')))]
    \<and> dict_keys d' = [''symbol'', ''timestamp'', ''recvWindow'', ''signature'']"
proof -
  let ?w = "empty_world\<lparr>heap := [[(''symbol'', VStr ''BTCUSDT'')]]\<rparr>"
  have h1: "0 < length (heap ?w)" by simp
  have h2: "''signature'' \<notin> set (dict_keys (deref ?w 0))"
    by (simp add: deref_def dict_keys_def)
  have k: "dict_keys (deref (snd (build_signed_params sample_env sample_client 0 ?w)) 0)
             = [''symbol'', ''timestamp'', ''recvWindow'', ''signature'']"
    by (simp add: build_signed_params_heap signed_params_def extended_params_def deref_def
        dict_keys_def)
  have t: "clock_ms sample_env (n_reads ?w) = 1000"
    by (simp add: sample_env_def empty_world_def)
  from build_signed_params_contract [OF h1 h2, of sample_env sample_client] k t
  show ?thesis
    by (simp add: Let_def)
qed

text \<open>
  A mapping that already has a \<open>signature\<close> entry (one that went through a signed call
  before) keeps that entry while the new signature is computed: the text that is signed
  starts with \<open>signature=x\<close>, and the result is not the signature of the other fields.
\<close>

theorem build_signed_params_counterexample:
  "let w = empty_world\<lparr>heap := [[(''signature'', VStr ''x'')]]\<rparr>;
       d' = deref (snd (build_signed_params sample_env sample_client 0 w)) 0
   in dict_get d' ''signature'' =
        Some (VStr (sign sample_env sample_client
          [(''signature'', VStr ''x''), (''timestamp'', VInt 1000), (''recvWindow'', VInt 5000)]))
    \<and> urlencode [(''signature'', VStr ''x''), (''timestamp'', VInt 1000),
                  (''recvWindow'', VInt 5000)]
        = ''signature=x&timestamp=1000&recvWindow=5000''
    \<and> dict_get d' ''signature''
        \<noteq> Some (VStr (sign sample_env sample_client (dict_without d' ''signature'')))"
proof -
  let ?w = "empty_world\<lparr>heap := [[(''signature'', VStr ''x'')]]\<rparr>"
  let ?D = "[(''signature'', VStr ''x''), (''timestamp'', VInt 1000), (''recvWindow'', VInt 5000)]"
  let ?D2 = "[(''timestamp'', VInt 1000), (''recvWindow'', VInt 5000)]"
  have u1: "urlencode ?D = ''signature=x&timestamp=1000&recvWindow=5000''"
    by (simp add: urlencode_def quote_plus_def quote_plus_chr_def chr_isalpha_def
        chr_isdigit_def py_str_def str_of_int_1000 str_of_int_5000)
  have u2: "urlencode ?D2 = ''timestamp=1000&recvWindow=5000''"
    by (simp add: urlencode_def quote_plus_def quote_plus_chr_def chr_isalpha_def
        chr_isdigit_def py_str_def str_of_int_1000 str_of_int_5000)
  have d: "deref (snd (build_signed_params sample_env sample_client 0 ?w)) 0
             = [(''signature'', VStr (sign sample_env sample_client ?D)),
                (''timestamp'', VInt 1000), (''recvWindow'', VInt 5000)]"
    by (simp add: build_signed_params_heap signed_params_def extended_params_def deref_def
        sample_env_def empty_world_def RECV_WINDOW_def)
  have w: "dict_without [(''signature'', VStr (sign sample_env sample_client ?D)),
                (''timestamp'', VInt 1000), (''recvWindow'', VInt 5000)] ''signature'' = ?D2"
    by (simp add: dict_without_def)
  have "length (hexdigest (urlencode ?D)) \<noteq> length (hexdigest (urlencode ?D2))"
    by (simp only: hexdigest_length u1 u2) simp
  then have ne: "sign sample_env sample_client ?D \<noteq> sign sample_env sample_client ?D2"
    by (auto simp: sign_sample_env)
  show ?thesis
    unfolding Let_def d w using u1 ne by (simp add: dict_get_def)
qed

lemma request_signed_effect:
  assumes "case params of None \<Rightarrow> True | Some a \<Rightarrow> a < length (heap w)"
  shows "\<exists>a w2.
           request E c method endpoint params True w =
             attempts E c method (base_url c @ endpoint) a [1..max_retries c]
               (RuntimeError ''No attempts made.'') w2
         \<and> deref w2 a =
             signed_params E c (clock_ms E (n_reads w))
               (case params of None \<Rightarrow> [] | Some a \<Rightarrow> deref w a)
         \<and> n_reads w2 = n_reads w + 1
         \<and> trace w2 = trace w @ [Clock_read]
         \<and> heap w2 =
             (let sp = signed_params E c (clock_ms E (n_reads w))
                         (case params of None \<Rightarrow> [] | Some a \<Rightarrow> deref w a)
              in case params of
                   None \<Rightarrow> heap w @ [sp]
                 | Some a \<Rightarrow> if deref w a = [] then heap w @ [sp] else (heap w)[a := sp])"
proof (cases "case params of None \<Rightarrow> True | Some a \<Rightarrow> deref w a = []")
  case True
  let ?a = "length (heap w)"
  let ?w1 = "w\<lparr>heap := heap w @ [[]]\<rparr>"
  have o: "or_empty_dict params w = (?a, ?w1)"
    using True by (simp add: or_empty_dict_def alloc_def split: option.splits)
  have d0: "(case params of None \<Rightarrow> [] | Some a \<Rightarrow> deref w a) = []"
    using True by (simp split: option.splits)
  have b: "build_signed_params E c ?a ?w1 =
           (?a, ?w1\<lparr>n_reads := n_reads ?w1 + 1, trace := trace ?w1 @ [Clock_read],
                heap := (heap ?w1)[?a := signed_params E c (clock_ms E (n_reads ?w1)) (heap ?w1 ! ?a)]\<rparr>)"
    by (rule build_signed_params_heap) simp
  let ?sp = "signed_params E c (clock_ms E (n_reads w)) []"
  let ?w2 = "w\<lparr>n_reads := n_reads w + 1, trace := trace w @ [Clock_read],
               heap := heap w @ [?sp]\<rparr>"
  have r: "request E c method endpoint params True w =
             attempts E c method (base_url c @ endpoint) ?a [1..max_retries c]
               (RuntimeError ''No attempts made.'') ?w2"
    by (simp add: request_def o b py_range_def)
  have hp: "(case params of None \<Rightarrow> heap w @ [?sp]
             | Some a \<Rightarrow> if deref w a = [] then heap w @ [?sp] else (heap w)[a := ?sp])
            = heap w @ [?sp]"
    using True by (simp split: option.splits)
  show ?thesis
    by (rule exI [of _ ?a], rule exI [of _ ?w2]) (simp add: r d0 hp deref_def Let_def)
next
  case False
  then obtain a where p: "params = Some a" and ne: "deref w a \<noteq> []"
    by (cases params) simp_all
  from assms p have v: "a < length (heap w)" by simp
  have o: "or_empty_dict params w = (a, w)"
    using p ne by (simp add: or_empty_dict_def)
  have b: "build_signed_params E c a w =
           (a, w\<lparr>n_reads := n_reads w + 1, trace := trace w @ [Clock_read],
                heap := (heap w)[a := signed_params E c (clock_ms E (n_reads w)) (heap w ! a)]\<rparr>)"
    by (rule build_signed_params_heap [OF v])
  let ?sp = "signed_params E c (clock_ms E (n_reads w)) (deref w a)"
  let ?w2 = "w\<lparr>n_reads := n_reads w + 1, trace := trace w @ [Clock_read],
               heap := (heap w)[a := ?sp]\<rparr>"
  have r: "request E c method endpoint params True w =
             attempts E c method (base_url c @ endpoint) a [1..max_retries c]
               (RuntimeError ''No attempts made.'') ?w2"
    by (simp add: request_def o b py_range_def deref_def)
  show ?thesis
    by (rule exI [of _ a], rule exI [of _ ?w2])
       (simp add: r [unfolded p] p ne [unfolded deref_def] v deref_def Let_def)
qed

text \<open>
  C9, as amended. A signed call reads the clock exactly once, before any network call.
  Every attempt of the call sends one and the same mapping: the caller's fields with that
  one clock reading as \<open>timestamp\<close>, with \<open>recvWindow\<close> and with the signature; nothing is
  computed again between attempts. A non-empty mapping of the caller is updated in place
  with the three fields; for an empty or absent one, \<open>params or {}\<close> makes a new mapping,
  and the store gains that mapping while the caller's stays as it was.
\<close>

theorem signed_call_signs_once:
  assumes "case params of None \<Rightarrow> True | Some a \<Rightarrow> a < length (heap w)"
  shows "let sp = signed_params E c (clock_ms E (n_reads w))
                    (case params of None \<Rightarrow> [] | Some a \<Rightarrow> deref w a);
             w' = snd (request E c method endpoint params True w)
         in n_reads w' = n_reads w + 1
          \<and> (\<exists>evs. trace w' = trace w @ Clock_read # evs
                 \<and> (\<forall>e \<in> set evs. e = Send (mk_request c method (base_url c @ endpoint) sp)
                                   \<or> (\<exists>s. e = Sleep s)))
          \<and> dict_get sp ''timestamp'' = Some (VInt (clock_ms E (n_reads w)))
          \<and> dict_get sp ''recvWindow'' = Some (VInt 5000)
          \<and> (\<exists>sg. dict_get sp ''signature'' = Some (VStr sg))
          \<and> heap w' =
              (case params of
                 None \<Rightarrow> heap w @ [sp]
               | Some a \<Rightarrow> if deref w a = [] then heap w @ [sp] else (heap w)[a := sp])"
proof -
  let ?sp = "signed_params E c (clock_ms E (n_reads w))
                    (case params of None \<Rightarrow> [] | Some a \<Rightarrow> deref w a)"
  let ?url = "base_url c @ endpoint"
  from request_signed_effect [OF assms, of E c "method" "endpoint"] obtain a w2 where
    r: "request E c method endpoint params True w =
             attempts E c method ?url a [1..max_retries c] (RuntimeError ''No attempts made.'') w2"
    and d: "deref w2 a = ?sp"
    and n: "n_reads w2 = n_reads w + 1"
    and t: "trace w2 = trace w @ [Clock_read]"
    and h: "heap w2 =
             (case params of
                   None \<Rightarrow> heap w @ [?sp]
                 | Some a \<Rightarrow> if deref w a = [] then heap w @ [?sp] else (heap w)[a := ?sp])"
    by (auto simp: Let_def)
  let ?w' = "snd (request E c method endpoint params True w)"
  have fr: "heap ?w' = heap w2 \<and> n_reads ?w' = n_reads w2"
    using attempts_frame [of E c "method" ?url a "[1..max_retries c]" _ w2] r by simp
  from attempts_trace [of E c "method" ?url a "[1..max_retries c]" "RuntimeError ''No attempts made.''" w2]
  obtain evs where
    e: "trace ?w' = trace w2 @ evs"
       "\<forall>e \<in> set evs. e = Send (mk_request c method ?url (deref w2 a)) \<or> (\<exists>s. e = Sleep s)"
    using r by auto
  have tr: "\<exists>evs. trace ?w' = trace w @ Clock_read # evs
                 \<and> (\<forall>e \<in> set evs. e = Send (mk_request c method ?url ?sp) \<or> (\<exists>s. e = Sleep s))"
    using e t d by auto
  have g: "dict_get ?sp ''timestamp'' = Some (VInt (clock_ms E (n_reads w)))"
      "dict_get ?sp ''recvWindow'' = Some (VInt 5000)"
      "\<exists>sg. dict_get ?sp ''signature'' = Some (VStr sg)"
    by (simp_all add: signed_params_def extended_params_def dict_get_set RECV_WINDOW_def)
  show ?thesis
    unfolding Let_def using fr n h tr g by simp
qed

theorem signed_call_signs_once_witness:
  "let w = empty_world\<lparr>heap := [[(''symbol'', VStr ''BTCUSDT'')]]\<rparr>;
       w' = snd (request sample_env sample_client ''GET'' ''/fapi/v1/openOrders'' (Some 0) True w)
   in n_reads w' = 1
    \<and> length (heap w') = 1
    \<and> dict_get (deref w' 0) ''symbol'' = Some (VStr ''BTCUSDT'')
    \<and> dict_get (deref w' 0) ''timestamp'' = Some (VInt 1000)
    \<and> dict_get (deref w' 0) ''recvWindow'' = Some (VInt 5000)"
proof -
  let ?w = "empty_world\<lparr>heap := [[(''symbol'', VStr ''BTCUSDT'')]]\<rparr>"
  have h: "case Some 0 of None \<Rightarrow> True | Some a \<Rightarrow> a < length (heap ?w)" by simp
  have t: "clock_ms sample_env (n_reads ?w) = 1000"
    by (simp add: sample_env_def empty_world_def)
  have ne: "deref ?w 0 \<noteq> []" by (simp add: deref_def)
  have s: "dict_get (signed_params sample_env sample_client 1000 (deref ?w 0)) ''symbol''
             = Some (VStr ''BTCUSDT'')"
    by (simp add: signed_params_def extended_params_def dict_get_set)
       (simp add: dict_get_def deref_def)
  from signed_call_signs_once [OF h, of sample_env sample_client "''GET''" "''/fapi/v1/openOrders''"]
  show ?thesis
    using t ne s by (simp add: Let_def deref_def empty_world_def)
qed

text \<open>
  An empty mapping handed to a signed call is not the one that is signed: it is still
  empty after the call, and the three fields are in a new mapping.
\<close>

theorem signed_call_counterexample:
  "let w = empty_world\<lparr>heap := [[]]\<rparr>;
       w' = snd (request sample_env sample_client ''GET'' ''/fapi/v1/openOrders'' (Some 0) True w)
   in deref w 0 = []
    \<and> deref w' 0 = []
    \<and> dict_keys (deref w' 1) = [''timestamp'', ''recvWindow'', ''signature'']"
proof -
  let ?w = "empty_world\<lparr>heap := [[]]\<rparr>"
  let ?w' = "snd (request sample_env sample_client ''GET'' ''/fapi/v1/openOrders'' (Some 0) True ?w)"
  have h: "case Some 0 of None \<Rightarrow> True | Some a \<Rightarrow> a < length (heap ?w)" by simp
  have e: "deref ?w 0 = []" by (simp add: deref_def)
  from request_signed_effect [OF h, of sample_env sample_client "''GET''" "''/fapi/v1/openOrders''"]
  obtain a w2 where
    r: "request sample_env sample_client ''GET'' ''/fapi/v1/openOrders'' (Some 0) True ?w =
          attempts sample_env sample_client ''GET'' (base_url sample_client @ ''/fapi/v1/openOrders'')
            a [1..max_retries sample_client] (RuntimeError ''No attempts made.'') w2"
    and hp: "heap w2 = heap ?w @ [signed_params sample_env sample_client
                (clock_ms sample_env (n_reads ?w)) []]"
    using e by (auto simp: Let_def)
  have fr: "heap ?w' = heap w2"
    using attempts_frame [of sample_env sample_client "''GET''" _ a _ _ w2] r by simp
  have k: "dict_keys (signed_params sample_env sample_client (clock_ms sample_env (n_reads ?w)) [])
             = [''timestamp'', ''recvWindow'', ''signature'']"
    by (simp add: signed_params_def extended_params_def dict_keys_def)
  show ?thesis
    unfolding Let_def using e fr hp k by (simp add: deref_def)
qed

lemma place_order_params_cases:
  "place_order_params symbol side order_type quantity price time_in_force stop_price
       reduce_only position_side =
     [(''symbol'', VStr symbol), (''side'', VStr side), (''type'', VStr order_type),
      (''quantity'', VStr quantity), (''positionSide'', VStr position_side)]
     @ (if order_type = ''LIMIT''
        then [(''price'', str_or_none price),
              (''timeInForce'', VStr (case time_in_force of
                                None \<Rightarrow> ''GTC''
                              | Some tif \<Rightarrow> if tif = [] then ''GTC'' else tif))]
        else [])
     @ (if order_type = ''STOP_MARKET'' then [(''stopPrice'', str_or_none stop_price)] else [])
     @ (if reduce_only then [(''reduceOnly'', VStr ''true'')] else [])"
  by (simp add: place_order_params_def Let_def)

lemma place_order_params_nonempty:
  "place_order_params symbol side order_type quantity price time_in_force stop_price
       reduce_only position_side \<noteq> []"
  by (simp add: place_order_params_cases)

lemma place_order_store:
  "heap (snd (place_order E c symbol side order_type quantity price time_in_force stop_price
                reduce_only position_side w))
     = heap w @ [signed_params E c (clock_ms E (n_reads w))
                   (place_order_params symbol side order_type quantity price time_in_force
                      stop_price reduce_only position_side)]"
proof -
  let ?p = "place_order_params symbol side order_type quantity price time_in_force
                      stop_price reduce_only position_side"
  let ?a = "length (heap w)"
  let ?w1 = "w\<lparr>heap := heap w @ [?p]\<rparr>"
  have al: "alloc ?p w = (?a, ?w1)" by (simp add: alloc_def)
  have h: "case Some ?a of None \<Rightarrow> True | Some a \<Rightarrow> a < length (heap ?w1)" by simp
  have d: "deref ?w1 ?a = ?p" by (simp add: deref_def)
  from request_signed_effect [OF h, of E c "''POST''" "''/fapi/v1/order''"]
  obtain a w2 where
    r: "request E c ''POST'' ''/fapi/v1/order'' (Some ?a) True ?w1 =
          attempts E c ''POST'' (base_url c @ ''/fapi/v1/order'') a [1..max_retries c]
            (RuntimeError ''No attempts made.'') w2"
    and hp: "heap w2 = (heap ?w1)[?a := signed_params E c (clock_ms E (n_reads ?w1)) ?p]"
    using d place_order_params_nonempty [of symbol side order_type quantity price time_in_force
        stop_price reduce_only position_side]
    by (auto simp: Let_def)
  have fr: "heap (snd (request E c ''POST'' ''/fapi/v1/order'' (Some ?a) True ?w1)) = heap w2"
    using attempts_frame [of E c "''POST''" _ a _ _ w2] r by simp
  have "heap (snd (place_order E c symbol side order_type quantity price time_in_force stop_price
                reduce_only position_side w))
        = heap (snd (request E c ''POST'' ''/fapi/v1/order'' (Some ?a) True ?w1))"
    by (simp add: place_order_def al split: prod.splits sum.splits json.splits)
  with fr hp show ?thesis by simp
qed

text \<open>
  C8. In the mapping that \<open>place_order\<close> assembles, \<open>price\<close> and \<open>timeInForce\<close> are present
  exactly for the order type LIMIT (the time in force being GTC when none, or an empty
  one, is given), \<open>stopPrice\<close> exactly for STOP_MARKET and \<open>reduceOnly\<close> exactly when the
  flag is set; \<open>symbol\<close>, \<open>side\<close>, \<open>type\<close>, \<open>quantity\<close> and \<open>positionSide\<close> are always
  present, and there is no other key. This mapping, signed, is the one that the call
  leaves in the store for the request.
\<close>

theorem place_order_fields:
  "let p = place_order_params symbol side order_type quantity price time_in_force stop_price
             reduce_only position_side
   in (''price'' \<in> set (dict_keys p) \<longleftrightarrow> order_type = ''LIMIT'')
    \<and> (''timeInForce'' \<in> set (dict_keys p) \<longleftrightarrow> order_type = ''LIMIT'')
    \<and> (order_type = ''LIMIT'' \<longrightarrow>
          dict_get p ''price'' = Some (str_or_none price)
        \<and> dict_get p ''timeInForce''
            = Some (VStr (case time_in_force of
                            None \<Rightarrow> ''GTC''
                          | Some tif \<Rightarrow> if tif = [] then ''GTC'' else tif)))
    \<and> (''stopPrice'' \<in> set (dict_keys p) \<longleftrightarrow> order_type = ''STOP_MARKET'')
    \<and> (order_type = ''STOP_MARKET'' \<longrightarrow> dict_get p ''stopPrice'' = Some (str_or_none stop_price))
    \<and> (''reduceOnly'' \<in> set (dict_keys p) \<longleftrightarrow> reduce_only)
    \<and> (reduce_only \<longrightarrow> dict_get p ''reduceOnly'' = Some (VStr ''true''))
    \<and> dict_get p ''symbol'' = Some (VStr symbol)
    \<and> dict_get p ''side'' = Some (VStr side)
    \<and> dict_get p ''type'' = Some (VStr order_type)
    \<and> dict_get p ''quantity'' = Some (VStr quantity)
    \<and> dict_get p ''positionSide'' = Some (VStr position_side)
    \<and> set (dict_keys p) \<subseteq> {''symbol'', ''side'', ''type'', ''quantity'', ''positionSide'',
          ''price'', ''timeInForce'', ''stopPrice'', ''reduceOnly''}
    \<and> distinct (dict_keys p)
    \<and> heap (snd (place_order E c symbol side order_type quantity price time_in_force
                     stop_price reduce_only position_side w))
        = heap w @ [signed_params E c (clock_ms E (n_reads w)) p]"
  using place_order_store [of E c symbol side order_type quantity price time_in_force
      stop_price reduce_only position_side w]
  unfolding Let_def place_order_params_cases
  by (cases "order_type = ''LIMIT''"; cases "order_type = ''STOP_MARKET''"; cases reduce_only)
     (simp_all add: dict_keys_def dict_get_def)

theorem place_order_fields_witness:
  "let p = place_order_params ''BTCUSDT'' ''BUY'' ''LIMIT'' ''0.001'' (Some ''10.5'') None None
             True ''BOTH''
   in dict_get p ''price'' = Some (VStr ''10.5'')
    \<and> dict_get p ''timeInForce'' = Some (VStr ''GTC'')
    \<and> ''stopPrice'' \<notin> set (dict_keys p)
    \<and> dict_get p ''reduceOnly'' = Some (VStr ''true'')"
  using place_order_fields [of "''BTCUSDT''" "''BUY''" "''LIMIT''" "''0.001''" "Some ''10.5''"
      None None True "''BOTH''"]
  by (simp add: Let_def str_or_none_def)

end
